theory Spec2Isabelle
  imports Complex_Main "HOL-Library.AList"
begin

section \<open>Python values\<close>

text \<open>
  A Python \<^verbatim>\<open>float\<close> is a finite number, an infinity or NaN. The validator only
  compares floats (\<^verbatim>\<open>p_value < threshold\<close>); on finite floats the comparison is
  the comparison of the numbers they denote, and every comparison with NaN is false.
\<close>

datatype pyfloat = Finite real | PosInf | NegInf | NaN

fun float_lt :: "pyfloat \<Rightarrow> pyfloat \<Rightarrow> bool" where
  "float_lt (Finite a) (Finite b) = (a < b)"
| "float_lt (Finite a) PosInf = True"
| "float_lt NegInf (Finite b) = True"
| "float_lt NegInf PosInf = True"
| "float_lt _ _ = False"

text \<open>
  The objects a YAML document loads to, which are also the objects the drift report is
  built from. A \<^verbatim>\<open>dict\<close> keeps its keys in insertion order: it is an association
  list, updated with \<^const>\<open>AList.update\<close> (an existing key keeps its place, a new key
  goes last). The keys are strings, as column names are.
\<close>

datatype pyval =
    PyNone
  | PyBool bool
  | PyInt int
  | PyFloat pyfloat
  | PyStr string
  | PyList "pyval list"
  | PyDict "(string \<times> pyval) list"

text \<open>
  Exceptions. \<open>KeyError\<close> carries the key, \<open>Exception\<close> the message given in the source,
  the file errors the path; the messages the Python runtime composes are left out.
  \<open>LibraryError\<close> stands for an exception class of pandas, scipy or PyYAML.
  \<open>NetworkSecurityException\<close> (exception.py) keeps the \<^verbatim>\<open>error_message\<close> it was
  given, which throughout the validator is the caught exception object, and
  \<^verbatim>\<open>lineno\<close>, the line of the handler's frame at which the exception surfaced.
  Its \<^verbatim>\<open>filename\<close> is the path of the module the handler is in; it is the same for
  every handler of the validator and is not represented.
\<close>

datatype exn =
    KeyError string
  | TypeError
  | AttributeError
  | ValueError string
  | FileNotFoundError string
  | FileExistsError string
  | IsADirectoryError string
  | NotADirectoryError string
  | OSError string
  | Exception string
  | SchemaLoadError string
  | LibraryError string
  | NetworkSecurityException (error_message: exn) (lineno: nat)

text \<open>\<^verbatim>\<open>obj[key]\<close> with a string key, \<^verbatim>\<open>len(obj)\<close> and \<^verbatim>\<open>obj.keys()\<close>.\<close>

fun py_getitem :: "pyval \<Rightarrow> string \<Rightarrow> exn + pyval" where
  "py_getitem (PyDict d) k = (case map_of d k of None \<Rightarrow> Inl (KeyError k) | Some v \<Rightarrow> Inr v)"
| "py_getitem _ k = Inl TypeError"

fun py_len :: "pyval \<Rightarrow> exn + nat" where
  "py_len (PyDict d) = Inr (length d)"
| "py_len (PyList xs) = Inr (length xs)"
| "py_len (PyStr s) = Inr (length s)"
| "py_len _ = Inl TypeError"

fun py_keys :: "pyval \<Rightarrow> exn + string list" where
  "py_keys (PyDict d) = Inr (map fst d)"
| "py_keys _ = Inl AttributeError"

section \<open>Tables\<close>

text \<open>
  A pandas \<^verbatim>\<open>DataFrame\<close>: the ordered sequence of its named columns, each with its
  cells. The validator never looks inside a cell, so the cell type is a parameter.
  \<^verbatim>\<open>df.columns\<close> are the names in order, \<^verbatim>\<open>df.shape[1]\<close> is their number, and
  \<^verbatim>\<open>df[name]\<close> is the column of that name (\<open>KeyError\<close> when there is none). Column
  labels are unique in every table that \<^verbatim>\<open>read_csv\<close> returns; \<open>df_getitem\<close> models
  \<^verbatim>\<open>df[name]\<close> for such tables.
\<close>

type_synonym 'v dataframe = "(string \<times> 'v list) list"

definition df_columns :: "'v dataframe \<Rightarrow> string list" where
  "df_columns df = map fst df"

definition df_shape1 :: "'v dataframe \<Rightarrow> nat" where
  "df_shape1 df = length df"

definition df_getitem :: "'v dataframe \<Rightarrow> string \<Rightarrow> exn + 'v list" where
  "df_getitem df name = (case map_of df name of None \<Rightarrow> Inl (KeyError name) | Some s \<Rightarrow> Inr s)"

section \<open>The world: files, directories and the log\<close>

record DataIngestionArtifacts =
  trained_file_path :: string
  test_file_path :: string

record DataValidationConfig =
  valid_train_file_path :: string
  valid_test_file_path :: string
  drift_report_file_path :: string

text \<open>
  \<^verbatim>\<open>DataValidationArtifacts\<close>, with the fields of the constructor call in
  \<^verbatim>\<open>initiate_data_validation\<close>. The three paths carry the prefix \<open>artifact_\<close>, as a
  field name is declared once in a theory.
\<close>

record DataValidationArtifacts =
  validation_status :: bool
  artifact_valid_train_file_path :: string
  artifact_valid_test_file_path :: string
  invalid_train_file_path :: "string option"
  invalid_test_file_path :: "string option"
  artifact_drift_report_file_path :: string

text \<open>The calls of \<^verbatim>\<open>logging.info\<close>, one constructor for each format string.\<close>

datatype log_entry =
    Required_number_of_columns nat
  | DataFrame_has_columns nat
  | Missing_columns "string list"
  | Data_validation_completed DataValidationArtifacts

text \<open>
  A file holds text, or a structured (YAML) document, which is represented by the object
  it loads to.
\<close>

datatype content = Text string | Document pyval

record world =
  files :: "string \<rightharpoonup> content"
  dirs :: "string set"
  logged :: "log_entry list"

definition logging_info :: "log_entry \<Rightarrow> world \<Rightarrow> world" where
  "logging_info entry w = w\<lparr>logged := logged w @ [entry]\<rparr>"

text \<open>
  \<^verbatim>\<open>os.path.dirname\<close> (posixpath): the path up to and including its last slash,
  with the trailing slashes removed unless it consists of slashes only.
\<close>

definition dirname :: "string \<Rightarrow> string" where
  "dirname p =
     (let head = rev (dropWhile (\<lambda>c. c \<noteq> CHR ''/'') (rev p))
      in if head \<noteq> [] \<and> (\<exists>c \<in> set head. c \<noteq> CHR ''/'')
         then rev (dropWhile (\<lambda>c. c = CHR ''/'') (rev head)) else head)"

text \<open>
  \<^verbatim>\<open>os.path.basename\<close>: what follows the last slash. \<^verbatim>\<open>os.path.split\<close> returns
  the pair of \<open>dirname\<close> and \<open>basename\<close>.
\<close>

definition basename :: "string \<Rightarrow> string" where
  "basename p = rev (takeWhile (\<lambda>c. c \<noteq> CHR ''/'') (rev p))"

text \<open>
  The directories of the world are those it lists and the root (a name of slashes
  only); the working directory is the parent of a bare name. Paths are compared as
  they are written: the model is of paths without \<^verbatim>\<open>.\<close> and \<^verbatim>\<open>..\<close> components and
  without doubled or trailing slashes.
\<close>

definition is_root :: "string \<Rightarrow> bool" where
  "is_root p = (p \<noteq> [] \<and> dropWhile (\<lambda>c. c = CHR ''/'') p = [])"

definition isdir :: "world \<Rightarrow> string \<Rightarrow> bool" where
  "isdir w p = (p \<in> dirs w \<or> is_root p)"

definition path_exists :: "world \<Rightarrow> string \<Rightarrow> bool" where
  "path_exists w p = (isdir w p \<or> files w p \<noteq> None)"

text \<open>
  \<^verbatim>\<open>os.mkdir\<close>: the parent must be a directory (\<open>NotADirectoryError\<close> when it is a
  file, \<open>FileNotFoundError\<close> when there is none) and the name must be free.
\<close>

definition mkdir :: "string \<Rightarrow> world \<Rightarrow> exn + world" where
  "mkdir name w =
     (if name = [] then Inl (FileNotFoundError name)
      else if dirname name \<noteq> [] \<and> \<not> isdir w (dirname name)
      then (if files w (dirname name) \<noteq> None then Inl (NotADirectoryError name)
            else Inl (FileNotFoundError name))
      else if path_exists w name then Inl (FileExistsError name)
      else Inr (w\<lparr>dirs := insert name (dirs w)\<rparr>))"

text \<open>
  \<^verbatim>\<open>os.makedirs(name, exist_ok=True)\<close>, as in os.py: split the name into head and
  tail (once more when the tail is empty); when the head does not exist, make it first,
  with its own parents; then \<^verbatim>\<open>mkdir(name)\<close>, whose error is passed over when the
  name is a directory already. The case of a tail \<^verbatim>\<open>.\<close> is not represented, as paths
  with such components are not. Permissions, quotas and the like are outside the model.
  A call that raises leaves the world as it was: where every file and directory lies in
  a directory, a directory just made is empty and the next \<^verbatim>\<open>mkdir\<close> succeeds in it,
  so that a call can only raise before it has made any directory.
\<close>

definition makedirs_split :: "string \<Rightarrow> string \<times> string" where
  "makedirs_split name =
     (if basename name = [] then (dirname (dirname name), basename (dirname name))
      else (dirname name, basename name))"

definition mkdir_exist_ok :: "string \<Rightarrow> world \<Rightarrow> exn + world" where
  "mkdir_exist_ok name w =
     (case mkdir name w of
        Inl e \<Rightarrow> if isdir w name then Inr w else Inl e
      | Inr w1 \<Rightarrow> Inr w1)"

function makedirs :: "string \<Rightarrow> world \<Rightarrow> exn + world" where
  "makedirs name w =
     (if fst (makedirs_split name) \<noteq> [] \<and> snd (makedirs_split name) \<noteq> []
         \<and> \<not> path_exists w (fst (makedirs_split name))
      then (case makedirs (fst (makedirs_split name)) w of
              Inl e \<Rightarrow> (case e of FileExistsError p \<Rightarrow> mkdir_exist_ok name w | _ \<Rightarrow> Inl e)
            | Inr w1 \<Rightarrow> mkdir_exist_ok name w1)
      else mkdir_exist_ok name w)"
  by pat_completeness auto
termination
proof (relation "measure (\<lambda>(name, w). length name)")
  show "wf (measure (\<lambda>(name, w :: world). length name))"
    by simp
next
  fix name :: string and w :: world
  assume guard: "fst (makedirs_split name) \<noteq> [] \<and> snd (makedirs_split name) \<noteq> []
    \<and> \<not> path_exists w (fst (makedirs_split name))"
  have drop: "length (dropWhile P xs) \<le> length xs" for P and xs :: string
    by (induction xs) auto
  have parts: "length (takeWhile P xs) + length (dropWhile P xs) = length xs"
    for P and xs :: string
    by (metis length_append takeWhile_dropWhile_id)
  have head: "length (dirname p) \<le> length (dropWhile (\<lambda>c. c \<noteq> CHR ''/'') (rev p))"
    for p
    unfolding dirname_def Let_def
    using drop [of "\<lambda>c. c = CHR ''/''" "dropWhile (\<lambda>c. c \<noteq> CHR ''/'') (rev p)"]
    by auto
  have le: "length (dirname p) \<le> length p" for p
    using head [of p] drop [of "\<lambda>c. c \<noteq> CHR ''/''" "rev p"] by simp
  have less: "length (dirname p) < length p" if "basename p \<noteq> []" for p
  proof -
    from that have "length (takeWhile (\<lambda>c. c \<noteq> CHR ''/'') (rev p)) \<noteq> 0"
      by (simp add: basename_def)
    with parts [of "\<lambda>c. c \<noteq> CHR ''/''" "rev p"]
    have "length (dropWhile (\<lambda>c. c \<noteq> CHR ''/'') (rev p)) < length (rev p)"
      by linarith
    with head [of p] show ?thesis
      by simp
  qed
  from guard have "length (fst (makedirs_split name)) < length name"
    using less [of name] less [of "dirname name"] le [of name]
    by (auto simp add: makedirs_split_def split: if_splits)
  then show "((fst (makedirs_split name), w), name, w)
      \<in> measure (\<lambda>(name, w). length name)"
    by simp
qed

declare makedirs.simps [simp del]

definition write_file :: "string \<Rightarrow> content \<Rightarrow> world \<Rightarrow> exn + world" where
  "write_file path held w =
     (if dirname path \<noteq> [] \<and> \<not> isdir w (dirname path) then Inl (OSError path)
      else if isdir w path then Inl (IsADirectoryError path)
      else Inr (w\<lparr>files := (files w)(path \<mapsto> held)\<rparr>))"

section \<open>The libraries and helpers outside the sources\<close>

text \<open>
  scipy and pandas are not part of the repository: the validator is modelled for any
  behaviour of theirs.
  \<^item> \<open>ks_2samp d1 d2\<close> is \<^verbatim>\<open>float(ks_2samp(d1, d2).pvalue)\<close>, or what the call raises;
  \<^item> \<open>pd_read_csv held\<close> is the table \<^verbatim>\<open>pd.read_csv\<close> parses from a file that
    holds \<open>held\<close>, or what it raises;
  \<^item> \<open>pd_to_csv df\<close> is the text \<^verbatim>\<open>df.to_csv(path, index=False, header=True)\<close>
    writes.
\<close>

record 'v externals =
  ks_2samp :: "'v list \<Rightarrow> 'v list \<Rightarrow> exn + pyfloat"
  pd_read_csv :: "content \<Rightarrow> exn + 'v dataframe"
  pd_to_csv :: "'v dataframe \<Rightarrow> string"

text \<open>
  Modelled from the spec: a schema with zero columns, which the load of the schema
  rejects. The number of columns of a schema document is the number the column-count
  check compares with, \<^verbatim>\<open>len(doc["columns"])\<close>.
\<close>

definition zero_columns :: "pyval \<Rightarrow> bool" where
  "zero_columns doc =
     (case py_getitem doc ''columns'' of Inl e \<Rightarrow> False | Inr cols \<Rightarrow> py_len cols = Inr 0)"

text \<open>
  Modelled from the spec: \<^verbatim>\<open>read_yaml_file\<close> of
  \<^verbatim>\<open>networksecurity.utils.main_utils.utils\<close>, which is not among the sources. The
  spec: the schema is loaded from a fixed path; the load fails when the document is
  missing or malformed, that is, not a structured document (SchemaLoadError); a schema
  with zero columns is rejected at load time.
\<close>

definition read_yaml_file :: "string \<Rightarrow> world \<Rightarrow> exn + pyval" where
  "read_yaml_file file_path w =
     (case files w file_path of
        None \<Rightarrow> Inl (SchemaLoadError file_path)
      | Some (Text text) \<Rightarrow> Inl (SchemaLoadError file_path)
      | Some (Document doc) \<Rightarrow>
          if zero_columns doc then Inl (SchemaLoadError file_path) else Inr doc)"

text \<open>
  Modelled from the spec: \<^verbatim>\<open>write_yaml_file\<close> of the same module, not among the
  sources. The spec: the report is written to the configured path as a structured
  document, with create-or-truncate semantics; a target that cannot be written is an
  error. The document is represented by the object handed over.
\<close>

definition write_yaml_file :: "string \<Rightarrow> pyval \<Rightarrow> world \<Rightarrow> exn + world" where
  "write_yaml_file file_path doc w = write_file file_path (Document doc) w"

section \<open>The validator: class DataValidation\<close>

record validator =
  data_ingestion_artifact :: DataIngestionArtifacts
  data_validation_config :: DataValidationConfig
  schema_config :: pyval

text \<open>
  The body of a \<^verbatim>\<open>try\<close> yields a value or an exception together with the line at
  which it surfaced in this frame; \<open>except_Exception\<close> is the handler every method of
  the validator has: \<^verbatim>\<open>except Exception as e: raise NetworkSecurityException(e, sys)\<close>.
  \<open>at_line l m f\<close> runs the statement \<open>m\<close> of line \<open>l\<close> and continues with \<open>f\<close>.
\<close>

definition except_Exception :: "((exn \<times> nat) + 'a) \<times> world \<Rightarrow> (exn + 'a) \<times> world" where
  "except_Exception r =
     (case r of
        (Inl (e, l), w) \<Rightarrow> (Inl (NetworkSecurityException e l), w)
      | (Inr a, w) \<Rightarrow> (Inr a, w))"

definition at_line ::
  "nat \<Rightarrow> (exn + 'a) \<times> world \<Rightarrow> ('a \<Rightarrow> world \<Rightarrow> ((exn \<times> nat) + 'b) \<times> world)
     \<Rightarrow> ((exn \<times> nat) + 'b) \<times> world" where
  "at_line l m f = (case m of (Inl e, w) \<Rightarrow> (Inl (e, l), w) | (Inr a, w) \<Rightarrow> f a w)"

text \<open>An operating-system call: it changes the world or raises and leaves it as it was.\<close>

definition os_call :: "exn + world \<Rightarrow> world \<Rightarrow> (exn + unit) \<times> world" where
  "os_call r w = (case r of Inl e \<Rightarrow> (Inl e, w) | Inr w' \<Rightarrow> (Inr (), w'))"

definition DataValidation_init ::
  "string \<Rightarrow> DataIngestionArtifacts \<Rightarrow> DataValidationConfig \<Rightarrow> world
     \<Rightarrow> (exn + validator) \<times> world" where
  "DataValidation_init SCHEMA_FILE_PATH artifact config w =
     except_Exception
       (case read_yaml_file SCHEMA_FILE_PATH w of
          Inl e \<Rightarrow> (Inl (e, 21), w)
        | Inr doc \<Rightarrow>
            (Inr \<lparr>data_ingestion_artifact = artifact, data_validation_config = config,
                  schema_config = doc\<rparr>, w))"

definition read_data :: "'v externals \<Rightarrow> string \<Rightarrow> world \<Rightarrow> (exn + 'v dataframe) \<times> world" where
  "read_data ext file_path w =
     except_Exception
       (case files w file_path of
          None \<Rightarrow> (Inl (FileNotFoundError file_path, 29), w)
        | Some held \<Rightarrow>
            (case pd_read_csv ext held of
               Inl e \<Rightarrow> (Inl (e, 29), w)
             | Inr df \<Rightarrow> (Inr df, w)))"

definition validate_number_of_columns ::
  "validator \<Rightarrow> 'v dataframe \<Rightarrow> world \<Rightarrow> (exn + bool) \<times> world" where
  "validate_number_of_columns self dataframe w =
     except_Exception
       (case py_getitem (schema_config self) ''columns'' of
          Inl e \<Rightarrow> (Inl (e, 36), w)
        | Inr cols \<Rightarrow>
            (case py_len cols of
               Inl e \<Rightarrow> (Inl (e, 36), w)
             | Inr required_columns \<Rightarrow>
                 (let dataframe_columns = df_shape1 dataframe;
                      w1 = logging_info (Required_number_of_columns required_columns) w;
                      w2 = logging_info (DataFrame_has_columns dataframe_columns) w1
                  in (Inr (dataframe_columns = required_columns), w2))))"

definition validate_required_columns ::
  "validator \<Rightarrow> 'v dataframe \<Rightarrow> world \<Rightarrow> (exn + bool) \<times> world" where
  "validate_required_columns self dataframe w =
     except_Exception
       (case py_getitem (schema_config self) ''columns'' of
          Inl e \<Rightarrow> (Inl (e, 49), w)
        | Inr cols \<Rightarrow>
            (case py_keys cols of
               Inl e \<Rightarrow> (Inl (e, 49), w)
             | Inr required_columns \<Rightarrow>
                 (let dataframe_columns = df_columns dataframe;
                      missing_columns =
                        filter (\<lambda>col. col \<notin> set dataframe_columns) required_columns
                  in if missing_columns \<noteq> []
                     then (Inr False, logging_info (Missing_columns missing_columns) w)
                     else (Inr True, w))))"

text \<open>
  \<^verbatim>\<open>detect_dataset_drift\<close>. \<open>ks_column\<close> is the test of one column (lines 67 to 71),
  \<open>report_entry\<close> the dictionary stored for it (lines 74 to 77), and \<open>drift_loop\<close> the
  loop over \<^verbatim>\<open>base_df.columns\<close>, with the variables \<^verbatim>\<open>status\<close> and
  \<^verbatim>\<open>report\<close> it updates.
\<close>

definition ks_column ::
  "'v externals \<Rightarrow> 'v dataframe \<Rightarrow> 'v dataframe \<Rightarrow> string \<Rightarrow> (exn \<times> nat) + pyfloat" where
  "ks_column ext base_df current_df column =
     (case df_getitem base_df column of
        Inl e \<Rightarrow> Inl (e, 67)
      | Inr d1 \<Rightarrow>
          (case df_getitem current_df column of
             Inl e \<Rightarrow> Inl (e, 68)
           | Inr d2 \<Rightarrow>
               (case ks_2samp ext d1 d2 of
                  Inl e \<Rightarrow> Inl (e, 70)
                | Inr p_value \<Rightarrow> Inr p_value)))"

definition report_entry :: "pyfloat \<Rightarrow> bool \<Rightarrow> pyval" where
  "report_entry p_value drift_found =
     PyDict [(''p_value'', PyFloat p_value), (''drift_status'', PyBool drift_found)]"

fun drift_loop ::
  "'v externals \<Rightarrow> 'v dataframe \<Rightarrow> 'v dataframe \<Rightarrow> pyfloat \<Rightarrow> string list \<Rightarrow> bool
     \<Rightarrow> (string \<times> pyval) list \<Rightarrow> (exn \<times> nat) + (bool \<times> (string \<times> pyval) list)" where
  "drift_loop ext base_df current_df threshold [] status report = Inr (status, report)"
| "drift_loop ext base_df current_df threshold (column # rest) status report =
     (case ks_column ext base_df current_df column of
        Inl raised \<Rightarrow> Inl raised
      | Inr p_value \<Rightarrow>
          (let drift_found = float_lt p_value threshold;
               report1 = AList.update column (report_entry p_value drift_found) report;
               status1 = (if drift_found then False else status)
           in drift_loop ext base_df current_df threshold rest status1 report1))"

definition detect_dataset_drift ::
  "'v externals \<Rightarrow> validator \<Rightarrow> 'v dataframe \<Rightarrow> 'v dataframe \<Rightarrow> pyfloat \<Rightarrow> world
     \<Rightarrow> (exn + bool) \<times> world" where
  "detect_dataset_drift ext self base_df current_df threshold w =
     except_Exception
       (case drift_loop ext base_df current_df threshold (df_columns base_df) True [] of
          Inl raised \<Rightarrow> (Inl raised, w)
        | Inr (status, report) \<Rightarrow>
            (let drift_report_file_path = drift_report_file_path (data_validation_config self)
             in at_line 83 (os_call (makedirs (dirname drift_report_file_path) w) w) (\<lambda>_ w.
                at_line 85
                  (os_call (write_yaml_file drift_report_file_path (PyDict report) w) w)
                  (\<lambda>_ w. (Inr status, w)))))"

text \<open>A float that is a probability: a finite number from 0 to 1.\<close>

definition is_probability :: "pyfloat \<Rightarrow> bool" where
  "is_probability p = (case p of Finite r \<Rightarrow> 0 \<le> r \<and> r \<le> 1 | _ \<Rightarrow> False)"

text \<open>The default of the parameter \<^verbatim>\<open>threshold\<close>.\<close>

definition default_threshold :: pyfloat where
  "default_threshold = Finite (5 / 100)"

definition initiate_data_validation ::
  "'v externals \<Rightarrow> validator \<Rightarrow> world \<Rightarrow> (exn + DataValidationArtifacts) \<times> world" where
  "initiate_data_validation ext self w =
     except_Exception
       (let train_file_path = trained_file_path (data_ingestion_artifact self);
            test_file_path = test_file_path (data_ingestion_artifact self);
            config = data_validation_config self
        in at_line 97 (read_data ext train_file_path w) (\<lambda>train_df w.
           at_line 98 (read_data ext test_file_path w) (\<lambda>test_df w.
           at_line 101 (validate_number_of_columns self train_df w) (\<lambda>ok w.
           if \<not> ok
           then (Inl (Exception ''Number of columns do not match schema for training data.'',
                      102), w)
           else
           at_line 103 (validate_number_of_columns self test_df w) (\<lambda>ok w.
           if \<not> ok
           then (Inl (Exception ''Number of columns do not match schema for testing data.'',
                      104), w)
           else
           at_line 107 (validate_required_columns self train_df w) (\<lambda>ok w.
           if \<not> ok
           then (Inl (Exception ''Required columns missing in training data.'', 108), w)
           else
           at_line 109 (validate_required_columns self test_df w) (\<lambda>ok w.
           if \<not> ok
           then (Inl (Exception ''Required columns missing in testing data.'', 110), w)
           else
           at_line 113 (detect_dataset_drift ext self train_df test_df default_threshold w)
             (\<lambda>validation_status w.
           at_line 116 (os_call (makedirs (dirname (valid_train_file_path config)) w) w) (\<lambda>_ w.
           at_line 117
             (os_call
                (write_file (valid_train_file_path config) (Text (pd_to_csv ext train_df)) w) w)
             (\<lambda>_ w.
           at_line 118
             (os_call
                (write_file (valid_test_file_path config) (Text (pd_to_csv ext test_df)) w) w)
             (\<lambda>_ w.
           (let data_validation_artifact =
                  \<lparr>validation_status = validation_status,
                   artifact_valid_train_file_path = valid_train_file_path config,
                   artifact_valid_test_file_path = valid_test_file_path config,
                   invalid_train_file_path = None,
                   invalid_test_file_path = None,
                   artifact_drift_report_file_path = drift_report_file_path config\<rparr>
            in (Inr data_validation_artifact,
                logging_info (Data_validation_completed data_validation_artifact) w)))))))))))))"

section \<open>Sample inputs\<close>

text \<open>
  The examples below run the validator on tables of integers. For them the libraries are
  instantiated with what they do on such tables.

  CSV text: one line for the header and one for each row, fields separated by commas,
  integers in decimal. \<^verbatim>\<open>to_csv\<close> ends every line, the last one too, with a newline;
  \<^verbatim>\<open>read_csv\<close> skips empty lines, so it reads a text with or without the final newline.
  Text outside this fragment is refused here.
\<close>

definition newline :: char where
  "newline = CHR 0x0A"

fun join :: "string \<Rightarrow> string list \<Rightarrow> string" where
  "join sep [] = []"
| "join sep [x] = x"
| "join sep (x # y # ys) = x @ sep @ join sep (y # ys)"

fun split_on :: "char \<Rightarrow> string \<Rightarrow> string list" where
  "split_on c [] = [[]]"
| "split_on c (x # xs) =
     (if x = c then [] # split_on c xs
      else (case split_on c xs of [] \<Rightarrow> [[x]] | r # rs \<Rightarrow> (x # r) # rs))"

fun decimal :: "nat \<Rightarrow> string" where
  "decimal n =
     (if n < 10 then [''0123456789'' ! n]
      else decimal (n div 10) @ [''0123456789'' ! (n mod 10)])"

definition int_repr :: "int \<Rightarrow> string" where
  "int_repr i = (if i < 0 then CHR ''-'' # decimal (nat (- i)) else decimal (nat i))"

definition digit_value :: "char \<Rightarrow> nat option" where
  "digit_value c = map_of (zip ''0123456789'' [0, 1, 2, 3, 4, 5, 6, 7, 8, 9]) c"

fun parse_digits :: "string \<Rightarrow> nat \<Rightarrow> nat option" where
  "parse_digits [] acc = Some acc"
| "parse_digits (c # cs) acc =
     (case digit_value c of None \<Rightarrow> None | Some d \<Rightarrow> parse_digits cs (10 * acc + d))"

definition parse_int :: "string \<Rightarrow> int option" where
  "parse_int s =
     (case s of
        [] \<Rightarrow> None
      | c # cs \<Rightarrow>
          if c = CHR ''-'' then (if cs = [] then None
                                else map_option (\<lambda>n. - int n) (parse_digits cs 0))
          else map_option int (parse_digits s 0))"

definition sample_to_csv :: "int dataframe \<Rightarrow> string" where
  "sample_to_csv df =
     (let header = join '','' (map fst df);
          n = (case df of [] \<Rightarrow> 0 | (name, cells) # _ \<Rightarrow> length cells);
          row = (\<lambda>i. join '','' (map (\<lambda>(name, cells). int_repr (cells ! i)) df))
      in concat (map (\<lambda>line. line @ [newline]) (header # map row [0 ..< n])))"

definition sample_read_csv :: "content \<Rightarrow> exn + int dataframe" where
  "sample_read_csv held =
     (case held of
        Document doc \<Rightarrow> Inl (LibraryError ''ParserError'')
      | Text text \<Rightarrow>
          (case filter (\<lambda>line. line \<noteq> []) (split_on newline text) of
             [] \<Rightarrow> Inl (LibraryError ''EmptyDataError'')
           | header # lines \<Rightarrow>
               (let names = split_on CHR '','' header;
                    rows = map (\<lambda>line. map parse_int (split_on CHR '','' line)) lines
                in if \<not> distinct names \<or> [] \<in> set names
                      \<or> (\<exists>r \<in> set rows. length r \<noteq> length names \<or> None \<in> set r)
                   then Inl (LibraryError ''ParserError'')
                   else Inr (map (\<lambda>j. (names ! j, map (\<lambda>r. the (r ! j)) rows))
                               [0 ..< length names]))))"

text \<open>
  The two-sample Kolmogorov-Smirnov test on the samples of the examples: equal samples
  have the statistic 0 and the p-value 1; the samples 1, 2, 3, 4 and 5, 6, 7, 8 have the
  statistic 1 and the p-value 2/70; with an empty sample the p-value is NaN. Other samples
  are not tabulated.
\<close>

definition sample_ks_2samp :: "int list \<Rightarrow> int list \<Rightarrow> exn + pyfloat" where
  "sample_ks_2samp d1 d2 =
     (if d1 = [] \<or> d2 = [] then Inr NaN
      else if d1 = d2 then Inr (Finite 1)
      else if d1 = [1, 2, 3, 4] \<and> d2 = [5, 6, 7, 8] then Inr (Finite (2 / 70))
      else Inl (LibraryError ''not tabulated''))"

definition sample_ext :: "int externals" where
  "sample_ext =
     \<lparr>ks_2samp = sample_ks_2samp, pd_read_csv = sample_read_csv, pd_to_csv = sample_to_csv\<rparr>"

definition sample_schema :: pyval where
  "sample_schema = PyDict [(''columns'', PyDict [(''a'', PyStr ''int64''), (''b'', PyStr ''int64'')])]"

definition sample_config :: DataValidationConfig where
  "sample_config =
     \<lparr>valid_train_file_path = ''out/validated/train.csv'',
      valid_test_file_path = ''out/validated/test.csv'',
      drift_report_file_path = ''out/drift_report/report.yaml''\<rparr>"

definition sample_ingestion :: DataIngestionArtifacts where
  "sample_ingestion = \<lparr>trained_file_path = ''in/train.csv'', test_file_path = ''in/test.csv''\<rparr>"

definition sample_validator :: validator where
  "sample_validator =
     \<lparr>data_ingestion_artifact = sample_ingestion, data_validation_config = sample_config,
      schema_config = sample_schema\<rparr>"

text \<open>
  Tables: \<open>table_a\<close>, whose column \<open>b\<close> is constant; \<open>table_shifted\<close>, whose column
  \<open>a\<close> lies apart from that of \<open>table_a\<close>; \<open>table_short\<close>, which lacks the column \<open>b\<close>;
  \<open>table_no_rows\<close>, whose columns are empty; and \<open>table_constant\<close>, a single constant column.
\<close>

definition table_a :: "int dataframe" where
  "table_a = [(''a'', [1, 2, 3, 4]), (''b'', [1, 1, 1, 1])]"

definition table_shifted :: "int dataframe" where
  "table_shifted = [(''a'', [5, 6, 7, 8]), (''b'', [1, 1, 1, 1])]"

definition table_short :: "int dataframe" where
  "table_short = [(''a'', [1, 2, 3, 4])]"

definition table_no_rows :: "int dataframe" where
  "table_no_rows = [(''a'', []), (''b'', [])]"


text \<open>
  A world with the two input files and the schema. The train file has no newline after
  its last row.
\<close>

definition train_text :: string where
  "train_text = ''a,b'' @ [newline] @ ''1,1'' @ [newline] @ ''2,1'' @ [newline] @ ''3,1''
     @ [newline] @ ''4,1''"

definition test_text :: string where
  "test_text = ''a,b'' @ [newline] @ ''1,1'' @ [newline] @ ''2,1'' @ [newline] @ ''3,1''
     @ [newline] @ ''4,1'' @ [newline]"

definition sample_world :: world where
  "sample_world =
     \<lparr>files = [''in/train.csv'' \<mapsto> Text train_text, ''in/test.csv'' \<mapsto> Text test_text,
               ''schema.yaml'' \<mapsto> Document sample_schema],
      dirs = {''in''}, logged = []\<rparr>"

text \<open>
  Worlds with another train file: one whose table lacks the column \<open>b\<close>, and one whose
  second column has another name.
\<close>

definition short_text :: string where
  "short_text = ''a'' @ [newline] @ ''1'' @ [newline] @ ''2'' @ [newline] @ ''3''
     @ [newline] @ ''4'' @ [newline]"

definition renamed_text :: string where
  "renamed_text = ''a,c'' @ [newline] @ ''1,1'' @ [newline]"

definition table_renamed :: "int dataframe" where
  "table_renamed = [(''a'', [1]), (''c'', [1])]"

definition world_with_train :: "string \<Rightarrow> world" where
  "world_with_train t =
     sample_world\<lparr>files := (files sample_world)(''in/train.csv'' \<mapsto> Text t)\<rparr>"

text \<open>A schema document that declares no column.\<close>

definition empty_schema :: pyval where
  "empty_schema = PyDict [(''columns'', PyDict [])]"

text \<open>The record the validator returns in this world.\<close>

definition sample_artifact :: DataValidationArtifacts where
  "sample_artifact =
     \<lparr>validation_status = True,
      artifact_valid_train_file_path = ''out/validated/train.csv'',
      artifact_valid_test_file_path = ''out/validated/test.csv'',
      invalid_train_file_path = None, invalid_test_file_path = None,
      artifact_drift_report_file_path = ''out/drift_report/report.yaml''\<rparr>"

section \<open>Auxiliary facts\<close>

lemma except_Exception_Inr: "except_Exception r = (Inr a, w') \<longleftrightarrow> r = (Inr a, w')"
  by (auto simp add: except_Exception_def split: prod.splits sum.splits)


lemma at_line_Inr:
  "at_line l m f = (Inr b, w') \<longleftrightarrow> (\<exists>a w1. m = (Inr a, w1) \<and> f a w1 = (Inr b, w'))"
  by (auto simp add: at_line_def split: prod.splits sum.splits)


lemma os_call_Inr: "os_call r w = (Inr u, w') \<longleftrightarrow> r = Inr w'"
  by (auto simp add: os_call_def split: sum.splits)


text \<open>Directories and files.\<close>

lemma length_dirname_le: "length (dirname p) \<le> length p"
proof -
  have "length (dropWhile P xs) \<le> length xs" for P and xs :: string
    by (induction xs) auto
  then have a: "length (rev (dropWhile P (rev xs))) \<le> length xs" for P and xs :: string
    by (metis length_rev)
  show ?thesis
    unfolding dirname_def Let_def
    using a [of "\<lambda>c. c \<noteq> CHR ''/''" p]
      a [of "\<lambda>c. c = CHR ''/''" "rev (dropWhile (\<lambda>c. c \<noteq> CHR ''/'') (rev p))"]
    by (auto simp del: length_rev)
qed

lemma length_dirname_less: "basename p \<noteq> [] \<Longrightarrow> length (dirname p) < length p"
proof -
  assume b: "basename p \<noteq> []"
  have split: "length (takeWhile P xs) + length (dropWhile P xs) = length xs"
    for P and xs :: string
    by (metis length_append takeWhile_dropWhile_id)
  have le: "length (dropWhile P xs) \<le> length xs" for P and xs :: string
    by (induction xs) auto
  let ?head = "rev (dropWhile (\<lambda>c. c \<noteq> CHR ''/'') (rev p))"
  from b have "length (takeWhile (\<lambda>c. c \<noteq> CHR ''/'') (rev p)) \<noteq> 0"
    by (simp add: basename_def)
  with split [of "\<lambda>c. c \<noteq> CHR ''/''" "rev p"]
  have "length (dropWhile (\<lambda>c. c \<noteq> CHR ''/'') (rev p)) < length (rev p)"
    by linarith
  then have h: "length ?head < length p"
    by simp
  have "length (dirname p) \<le> length ?head"
    unfolding dirname_def Let_def
    using le [of "\<lambda>c. c = CHR ''/''" "rev ?head"] by (auto simp del: rev_rev_ident)
  with h show ?thesis by simp
qed

lemma makedirs_split_shorter:
  "snd (makedirs_split name) \<noteq> [] \<Longrightarrow> length (fst (makedirs_split name)) < length name"
  using length_dirname_less [of name] length_dirname_less [of "dirname name"]
    length_dirname_le [of name]
  by (auto simp add: makedirs_split_def split: if_splits)

lemma mkdir_exist_ok_Inr:
  "mkdir_exist_ok name w = Inr w1 \<Longrightarrow>
     files w1 = files w \<and> logged w1 = logged w \<and> isdir w1 name
     \<and> (w1 = w \<or> (w1 = w\<lparr>dirs := insert name (dirs w)\<rparr> \<and> \<not> path_exists w name))"
  by (auto simp add: mkdir_exist_ok_def mkdir_def isdir_def split: sum.splits if_splits)

lemma mkdir_exist_ok_isdir: "isdir w name \<Longrightarrow> mkdir_exist_ok name w = Inr w"
  by (auto simp add: mkdir_exist_ok_def mkdir_def path_exists_def split: sum.splits)

lemma makedirs_Inr:
  "makedirs name w = Inr w1 \<Longrightarrow>
     files w1 = files w \<and> logged w1 = logged w \<and> dirs w \<subseteq> dirs w1 \<and> isdir w1 name
     \<and> (\<forall>p \<in> dirs w1 - dirs w. files w p = None)"
proof (induction name w arbitrary: w1 rule: makedirs.induct)
  case (1 name w)
  let ?head = "fst (makedirs_split name)"
  let ?tail = "snd (makedirs_split name)"
  show ?case
  proof (cases "?head \<noteq> [] \<and> ?tail \<noteq> [] \<and> \<not> path_exists w ?head")
    case False
    with "1.prems" have "mkdir_exist_ok name w = Inr w1"
      by (subst (asm) makedirs.simps) simp
    from mkdir_exist_ok_Inr [OF this] show ?thesis
      by (auto simp add: path_exists_def)
  next
    case True
    show ?thesis
    proof (cases "makedirs ?head w")
      case (Inl e)
      with True "1.prems" have "mkdir_exist_ok name w = Inr w1"
        by (subst (asm) makedirs.simps) (auto split: exn.splits)
      from mkdir_exist_ok_Inr [OF this] show ?thesis
        by (auto simp add: path_exists_def)
    next
      case (Inr w0)
      with True "1.prems" have m: "mkdir_exist_ok name w0 = Inr w1"
        by (subst (asm) makedirs.simps) simp
      from "1.IH" [OF _ Inr] True have ih: "files w0 = files w" "logged w0 = logged w"
        "dirs w \<subseteq> dirs w0" "\<forall>p \<in> dirs w0 - dirs w. files w p = None"
        by auto
      from mkdir_exist_ok_Inr [OF m] ih show ?thesis
        by (auto simp add: path_exists_def)
    qed
  qed
qed

lemma makedirs_new_dirs_short:
  "makedirs name w = Inr w1 \<Longrightarrow> \<forall>p \<in> dirs w1 - dirs w. length p \<le> length name"
proof (induction name w arbitrary: w1 rule: makedirs.induct)
  case (1 name w)
  let ?head = "fst (makedirs_split name)"
  let ?tail = "snd (makedirs_split name)"
  show ?case
  proof (cases "?head \<noteq> [] \<and> ?tail \<noteq> [] \<and> \<not> path_exists w ?head")
    case False
    with "1.prems" have "mkdir_exist_ok name w = Inr w1"
      by (subst (asm) makedirs.simps) simp
    from mkdir_exist_ok_Inr [OF this] show ?thesis
      by auto
  next
    case True
    then have shorter: "length ?head < length name"
      by (simp add: makedirs_split_shorter)
    show ?thesis
    proof (cases "makedirs ?head w")
      case (Inl e)
      with True "1.prems" have "mkdir_exist_ok name w = Inr w1"
        by (subst (asm) makedirs.simps) (auto split: exn.splits)
      from mkdir_exist_ok_Inr [OF this] show ?thesis
        by auto
    next
      case (Inr w0)
      with True "1.prems" have m: "mkdir_exist_ok name w0 = Inr w1"
        by (subst (asm) makedirs.simps) simp
      from "1.IH" [OF _ Inr] True
      have ih: "\<forall>p \<in> dirs w0 - dirs w. length p \<le> length ?head"
        by auto
      have old: "length q \<le> length name" if "q \<in> dirs w0" "q \<notin> dirs w" for q
      proof -
        from that have "q \<in> dirs w0 - dirs w"
          by simp
        with ih have "length q \<le> length ?head"
          by (rule bspec)
        with shorter show ?thesis
          by linarith
      qed
      from mkdir_exist_ok_Inr [OF m] have "dirs w1 \<subseteq> insert name (dirs w0)"
        by auto
      with old show ?thesis
        by auto
    qed
  qed
qed

text \<open>
  The handler of \<^verbatim>\<open>FileExistsError\<close> around the recursive call guards against a
  directory made meanwhile by someone else; here the call never raises that.
\<close>

lemma makedirs_not_FileExistsError:
  assumes "\<not> path_exists w name"
  shows "makedirs name w \<noteq> Inl (FileExistsError p)"
proof
  let ?head = "fst (makedirs_split name)"
  let ?tail = "snd (makedirs_split name)"
  assume raised: "makedirs name w = Inl (FileExistsError p)"
  have no: "mkdir_exist_ok name w0 \<noteq> Inl (FileExistsError p)"
    if "\<not> path_exists w0 name" for w0
    using that
    by (auto simp add: mkdir_exist_ok_def mkdir_def split: sum.splits if_splits)
  show False
  proof (cases "?head \<noteq> [] \<and> ?tail \<noteq> [] \<and> \<not> path_exists w ?head")
    case False
    with raised have "mkdir_exist_ok name w = Inl (FileExistsError p)"
      by (subst (asm) makedirs.simps) simp
    with no [OF assms] show False by simp
  next
    case True
    then have shorter: "length ?head < length name"
      by (simp add: makedirs_split_shorter)
    show False
    proof (cases "makedirs ?head w")
      case (Inl e)
      with True raised have "mkdir_exist_ok name w = Inl (FileExistsError p)"
        by (subst (asm) makedirs.simps) (auto split: exn.splits)
      with no [OF assms] show False by simp
    next
      case (Inr w0)
      with True raised have m: "mkdir_exist_ok name w0 = Inl (FileExistsError p)"
        by (subst (asm) makedirs.simps) simp
      have "name \<notin> dirs w0"
      proof
        assume "name \<in> dirs w0"
        moreover from assms have "name \<notin> dirs w"
          by (simp add: path_exists_def isdir_def)
        ultimately have "length name \<le> length ?head"
          using makedirs_new_dirs_short [OF Inr] by simp
        with shorter show False by simp
      qed
      with makedirs_Inr [OF Inr] assms have "\<not> path_exists w0 name"
        by (simp add: path_exists_def isdir_def)
      with no m show False by simp
    qed
  qed
qed

text \<open>A directory made once is there in every later world: making it again changes nothing.\<close>

lemma makedirs_again:
  assumes "makedirs name w = Inr w1"
    and "dirs w1 \<subseteq> dirs w2"
    and "\<forall>p. files w p \<noteq> None \<longrightarrow> files w2 p \<noteq> None"
  shows "makedirs name w2 = Inr w2"
proof -
  let ?head = "fst (makedirs_split name)"
  let ?tail = "snd (makedirs_split name)"
  from makedirs_Inr [OF assms(1)] assms(2) have dir: "isdir w2 name"
    and sub: "dirs w \<subseteq> dirs w2"
    by (auto simp add: isdir_def)
  have "path_exists w2 ?head" if guard: "?head \<noteq> [] \<and> ?tail \<noteq> []"
  proof (cases "path_exists w ?head")
    case True
    with sub assms(3) show ?thesis
      by (auto simp add: path_exists_def isdir_def)
  next
    case False
    show ?thesis
    proof (cases "makedirs ?head w")
      case (Inr w0)
      with guard False assms(1) have "mkdir_exist_ok name w0 = Inr w1"
        by (subst (asm) makedirs.simps) simp
      from mkdir_exist_ok_Inr [OF this] makedirs_Inr [OF Inr] assms(2) show ?thesis
        by (auto simp add: path_exists_def isdir_def)
    next
      case (Inl e)
      with makedirs_not_FileExistsError [OF False] have "\<forall>p. e \<noteq> FileExistsError p"
        by auto
      with Inl guard False assms(1) show ?thesis
        by (subst (asm) makedirs.simps) (auto split: exn.splits)
    qed
  qed
  then show ?thesis
    using mkdir_exist_ok_isdir [OF dir] by (subst makedirs.simps) auto
qed


lemma write_file_Inr:
  "write_file path held w = Inr w' \<longleftrightarrow>
     (dirname path = [] \<or> isdir w (dirname path)) \<and> \<not> isdir w path
     \<and> w' = w\<lparr>files := (files w)(path \<mapsto> held)\<rparr>"
  by (auto simp add: write_file_def)

text \<open>The loop: the status it returns, the entries of the report, and their order.\<close>

lemma drift_loop_status:
  "drift_loop ext base cur \<alpha> cols status report = Inr (status', report') \<Longrightarrow>
     status' = (status \<and> (\<forall>c \<in> set cols. \<forall>p. ks_column ext base cur c = Inr p
                                \<longrightarrow> \<not> float_lt p \<alpha>))"
  by (induction cols arbitrary: status report)
    (auto simp add: Let_def split: sum.splits if_splits)

lemma drift_loop_map_of:
  "drift_loop ext base cur \<alpha> cols status report = Inr (status', report') \<Longrightarrow>
     (c \<in> set cols \<longrightarrow> (\<exists>p. ks_column ext base cur c = Inr p
        \<and> map_of report' c = Some (report_entry p (float_lt p \<alpha>))))
     \<and> (c \<notin> set cols \<longrightarrow> map_of report' c = map_of report c)"
proof (induction cols arbitrary: status report)
  case Nil
  then show ?case by simp
next
  case (Cons a cols)
  from Cons.prems obtain p where p: "ks_column ext base cur a = Inr p"
    by (auto split: sum.splits)
  let ?r1 = "AList.update a (report_entry p (float_lt p \<alpha>)) report"
  from Cons.prems p have rest:
    "drift_loop ext base cur \<alpha> cols (if float_lt p \<alpha> then False else status) ?r1
       = Inr (status', report')"
    by (simp add: Let_def)
  note ih = Cons.IH [OF rest]
  show ?case
  proof (cases "c \<in> set cols")
    case True
    with ih show ?thesis by simp
  next
    case False
    with ih have "map_of report' c = map_of ?r1 c" by simp
    then show ?thesis using False p by (auto simp add: AList.update_conv')
  qed
qed

text \<open>A run of the drift detection that returns, and one that raises.\<close>

lemma detect_dataset_drift_Inr_iff:
  "detect_dataset_drift ext self base cur \<alpha> w = (Inr status, w') \<longleftrightarrow>
     (\<exists>report w1.
        drift_loop ext base cur \<alpha> (df_columns base) True [] = Inr (status, report)
        \<and> makedirs (dirname (drift_report_file_path (data_validation_config self))) w = Inr w1
        \<and> write_file (drift_report_file_path (data_validation_config self))
             (Document (PyDict report)) w1 = Inr w')"
  by (auto simp add: detect_dataset_drift_def except_Exception_Inr at_line_Inr os_call_Inr
      Let_def write_yaml_file_def split: sum.splits prod.splits)

lemma detect_dataset_drift_Inr:
  assumes "detect_dataset_drift ext self base cur \<alpha> w = (Inr status, w')"
  shows "\<exists>report.
           drift_loop ext base cur \<alpha> (df_columns base) True [] = Inr (status, report)
           \<and> files w' = (files w)(drift_report_file_path (data_validation_config self)
                                    \<mapsto> Document (PyDict report))
           \<and> logged w' = logged w \<and> dirs w \<subseteq> dirs w'"
proof -
  from assms [unfolded detect_dataset_drift_Inr_iff] obtain report w1 where
    loop: "drift_loop ext base cur \<alpha> (df_columns base) True [] = Inr (status, report)"
    and m: "makedirs (dirname (drift_report_file_path (data_validation_config self))) w
              = Inr w1"
    and wr: "write_file (drift_report_file_path (data_validation_config self))
               (Document (PyDict report)) w1 = Inr w'"
    by (elim exE conjE)
  from makedirs_Inr [OF m] wr [unfolded write_file_Inr]
  have "files w' = (files w)(drift_report_file_path (data_validation_config self)
                              \<mapsto> Document (PyDict report))
        \<and> logged w' = logged w \<and> dirs w \<subseteq> dirs w'"
    by simp
  with loop show ?thesis
    by (intro exI [where x = report]) simp
qed


text \<open>The methods of the validator, by what they return.\<close>

lemma read_data_Inr:
  "read_data ext p w = (Inr df, w') \<longleftrightarrow>
     (\<exists>held. files w p = Some held \<and> pd_read_csv ext held = Inr df) \<and> w' = w"
  by (auto simp add: read_data_def except_Exception_def split: option.splits sum.splits)


lemma validate_number_of_columns_Inr:
  "validate_number_of_columns self df w = (Inr ok, w') \<longleftrightarrow>
     (\<exists>cols k. py_getitem (schema_config self) ''columns'' = Inr cols \<and> py_len cols = Inr k
        \<and> ok = (df_shape1 df = k)
        \<and> w' = w\<lparr>logged := logged w @ [Required_number_of_columns k,
                                          DataFrame_has_columns (df_shape1 df)]\<rparr>)"
  by (auto simp add: validate_number_of_columns_def except_Exception_def Let_def
      logging_info_def split: sum.splits)


lemma validate_required_columns_Inr:
  "validate_required_columns self df w = (Inr ok, w') \<longleftrightarrow>
     (\<exists>cols required. py_getitem (schema_config self) ''columns'' = Inr cols
        \<and> py_keys cols = Inr required
        \<and> ok = (set required \<subseteq> set (df_columns df))
        \<and> w' = (if ok then w
               else w\<lparr>logged := logged w @ [Missing_columns
                        (filter (\<lambda>col. col \<notin> set (df_columns df)) required)]\<rparr>))"
  by (auto simp add: validate_required_columns_def except_Exception_def Let_def
      logging_info_def filter_empty_conv split: sum.splits)



lemma initiate_data_validation_Inr:
  "initiate_data_validation ext self w = (Inr a, w') \<longleftrightarrow>
     (\<exists>train_held test_held train_df test_df cols k required report w1 w2 w3 w4 w5.
        files w (trained_file_path (data_ingestion_artifact self)) = Some train_held
        \<and> pd_read_csv ext train_held = Inr train_df
        \<and> files w (test_file_path (data_ingestion_artifact self)) = Some test_held
        \<and> pd_read_csv ext test_held = Inr test_df
        \<and> py_getitem (schema_config self) ''columns'' = Inr cols
        \<and> py_len cols = Inr k \<and> py_keys cols = Inr required
        \<and> df_shape1 train_df = k \<and> df_shape1 test_df = k
        \<and> set required \<subseteq> set (df_columns train_df)
        \<and> set required \<subseteq> set (df_columns test_df)
        \<and> drift_loop ext train_df test_df default_threshold (df_columns train_df) True []
            = Inr (validation_status a, report)
        \<and> makedirs (dirname (drift_report_file_path (data_validation_config self)))
              (w\<lparr>logged := logged w @
                   [Required_number_of_columns k, DataFrame_has_columns k,
                    Required_number_of_columns k, DataFrame_has_columns k]\<rparr>) = Inr w1
        \<and> write_file (drift_report_file_path (data_validation_config self))
              (Document (PyDict report)) w1 = Inr w2
        \<and> makedirs (dirname (valid_train_file_path (data_validation_config self))) w2
            = Inr w3
        \<and> write_file (valid_train_file_path (data_validation_config self))
              (Text (pd_to_csv ext train_df)) w3 = Inr w4
        \<and> write_file (valid_test_file_path (data_validation_config self))
              (Text (pd_to_csv ext test_df)) w4 = Inr w5
        \<and> a = \<lparr>validation_status = validation_status a,
                artifact_valid_train_file_path = valid_train_file_path (data_validation_config self),
                artifact_valid_test_file_path = valid_test_file_path (data_validation_config self),
                invalid_train_file_path = None, invalid_test_file_path = None,
                artifact_drift_report_file_path = drift_report_file_path (data_validation_config self)\<rparr>
        \<and> w' = w5\<lparr>logged := logged w5 @ [Data_validation_completed a]\<rparr>)"
  (is "?lhs \<longleftrightarrow> ?rhs")
proof
  assume ?lhs
  then show ?rhs
    apply (simp add: initiate_data_validation_def except_Exception_Inr at_line_Inr os_call_Inr
      Let_def read_data_Inr validate_number_of_columns_Inr validate_required_columns_Inr
      detect_dataset_drift_Inr_iff logging_info_def
      split: if_splits)
    apply (elim exE conjE)
    apply (auto split: if_splits)
    done
next
  assume ?rhs
  then show ?lhs
    apply (elim exE conjE)
    apply (simp add: initiate_data_validation_def except_Exception_Inr at_line_Inr os_call_Inr
      Let_def read_data_Inr validate_number_of_columns_Inr validate_required_columns_Inr
      detect_dataset_drift_Inr_iff logging_info_def)
    apply (rule exI [where x = True], simp)+
    done
qed

text \<open>What a run that returns has done to the world.\<close>

lemma initiate_data_validation_effects:
  assumes "initiate_data_validation ext self w = (Inr a, w')"
  shows "\<exists>train_held test_held train_df test_df k report.
           files w (trained_file_path (data_ingestion_artifact self)) = Some train_held
           \<and> pd_read_csv ext train_held = Inr train_df
           \<and> files w (test_file_path (data_ingestion_artifact self)) = Some test_held
           \<and> pd_read_csv ext test_held = Inr test_df
           \<and> files w' = (files w)
                 (drift_report_file_path (data_validation_config self)
                    \<mapsto> Document (PyDict report),
                  valid_train_file_path (data_validation_config self)
                    \<mapsto> Text (pd_to_csv ext train_df),
                  valid_test_file_path (data_validation_config self)
                    \<mapsto> Text (pd_to_csv ext test_df))
           \<and> logged w' = logged w @
                 [Required_number_of_columns k, DataFrame_has_columns k,
                  Required_number_of_columns k, DataFrame_has_columns k,
                  Data_validation_completed a]
           \<and> a = \<lparr>validation_status = validation_status a,
                   artifact_valid_train_file_path
                     = valid_train_file_path (data_validation_config self),
                   artifact_valid_test_file_path
                     = valid_test_file_path (data_validation_config self),
                   invalid_train_file_path = None, invalid_test_file_path = None,
                   artifact_drift_report_file_path
                     = drift_report_file_path (data_validation_config self)\<rparr>"
proof -
  from assms [unfolded initiate_data_validation_Inr]
  obtain train_held test_held train_df test_df k report w1 w2 w3 w4 w5 where
    reads: "files w (trained_file_path (data_ingestion_artifact self)) = Some train_held"
      "pd_read_csv ext train_held = Inr train_df"
      "files w (test_file_path (data_ingestion_artifact self)) = Some test_held"
      "pd_read_csv ext test_held = Inr test_df"
    and m1: "makedirs (dirname (drift_report_file_path (data_validation_config self)))
              (w\<lparr>logged := logged w @
                   [Required_number_of_columns k, DataFrame_has_columns k,
                    Required_number_of_columns k, DataFrame_has_columns k]\<rparr>) = Inr w1"
    and wr1: "write_file (drift_report_file_path (data_validation_config self))
              (Document (PyDict report)) w1 = Inr w2"
    and m2: "makedirs (dirname (valid_train_file_path (data_validation_config self))) w2
              = Inr w3"
    and wr2: "write_file (valid_train_file_path (data_validation_config self))
              (Text (pd_to_csv ext train_df)) w3 = Inr w4"
    and wr3: "write_file (valid_test_file_path (data_validation_config self))
              (Text (pd_to_csv ext test_df)) w4 = Inr w5"
    and a: "a = \<lparr>validation_status = validation_status a,
                artifact_valid_train_file_path = valid_train_file_path (data_validation_config self),
                artifact_valid_test_file_path = valid_test_file_path (data_validation_config self),
                invalid_train_file_path = None, invalid_test_file_path = None,
                artifact_drift_report_file_path = drift_report_file_path (data_validation_config self)\<rparr>"
    and w': "w' = w5\<lparr>logged := logged w5 @ [Data_validation_completed a]\<rparr>"
    by (elim exE conjE)
  from makedirs_Inr [OF m1] have 1: "files w1 = files w" "logged w1 = logged w @
      [Required_number_of_columns k, DataFrame_has_columns k,
       Required_number_of_columns k, DataFrame_has_columns k]"
    by simp_all
  from wr1 [unfolded write_file_Inr] 1 have 2: "files w2 = (files w)
      (drift_report_file_path (data_validation_config self) \<mapsto> Document (PyDict report))"
    "logged w2 = logged w1"
    by simp_all
  from makedirs_Inr [OF m2] have 3: "files w3 = files w2" "logged w3 = logged w2"
    by simp_all
  from wr2 [unfolded write_file_Inr] have 4: "files w4 = (files w3)
      (valid_train_file_path (data_validation_config self) \<mapsto> Text (pd_to_csv ext train_df))"
    "logged w4 = logged w3"
    by simp_all
  from wr3 [unfolded write_file_Inr] have 5: "files w5 = (files w4)
      (valid_test_file_path (data_validation_config self) \<mapsto> Text (pd_to_csv ext test_df))"
    "logged w5 = logged w4"
    by simp_all
  have "files w' = (files w)
          (drift_report_file_path (data_validation_config self) \<mapsto> Document (PyDict report),
           valid_train_file_path (data_validation_config self)
             \<mapsto> Text (pd_to_csv ext train_df),
           valid_test_file_path (data_validation_config self)
             \<mapsto> Text (pd_to_csv ext test_df))"
    "logged w' = logged w @
          [Required_number_of_columns k, DataFrame_has_columns k,
           Required_number_of_columns k, DataFrame_has_columns k,
           Data_validation_completed a]"
    by (simp_all add: w' 1 2 3 4 5)
  with reads a show ?thesis
    by (intro exI [where x = train_held] exI [where x = test_held] exI [where x = train_df]
        exI [where x = test_df] exI [where x = k] exI [where x = report]) simp
qed

lemma sample_read_train: "sample_read_csv (Text train_text) = Inr table_a"
  by (simp add: sample_read_csv_def train_text_def table_a_def newline_def parse_int_def
      digit_value_def Let_def)

lemma sample_read_test: "sample_read_csv (Text test_text) = Inr table_a"
  by (simp add: sample_read_csv_def test_text_def table_a_def newline_def parse_int_def
      digit_value_def Let_def)

lemma sample_write_table_a: "sample_to_csv table_a = test_text"
  by (simp add: sample_to_csv_def test_text_def table_a_def newline_def int_repr_def Let_def)

lemma test_text_eq: "test_text = train_text @ [newline]"
  by (simp add: test_text_def train_text_def)


text \<open>The validator on the sample world.\<close>

lemmas fs_defs =
  makedirs.simps makedirs_split_def mkdir_exist_ok_def mkdir_def write_file_def dirname_def
  basename_def isdir_def is_root_def path_exists_def Let_def

lemma sample_run:
  "initiate_data_validation sample_ext sample_validator sample_world
     = (Inr sample_artifact,
        \<lparr>files = (files sample_world)
           (''out/drift_report/report.yaml'' \<mapsto> Document (PyDict
               [(''a'', report_entry (Finite 1) False), (''b'', report_entry (Finite 1) False)]),
            ''out/validated/train.csv'' \<mapsto> Text test_text,
            ''out/validated/test.csv'' \<mapsto> Text test_text),
         dirs = {''out/validated'', ''out/drift_report'', ''out'', ''in''},
         logged = [Required_number_of_columns 2, DataFrame_has_columns 2,
                   Required_number_of_columns 2, DataFrame_has_columns 2,
                   Data_validation_completed sample_artifact]\<rparr>)"
proof -
  let ?log = "[Required_number_of_columns 2, DataFrame_has_columns 2,
               Required_number_of_columns 2, DataFrame_has_columns 2]"
  let ?report = "[(''a'', report_entry (Finite 1) False),
                  (''b'', report_entry (Finite 1) False)]"
  let ?f2 = "(files sample_world)(''out/drift_report/report.yaml''
               \<mapsto> Document (PyDict ?report))"
  let ?f4 = "?f2(''out/validated/train.csv'' \<mapsto> Text test_text)"
  let ?f5 = "?f4(''out/validated/test.csv'' \<mapsto> Text test_text)"
  let ?d1 = "{''out/drift_report'', ''out'', ''in''}"
  let ?d3 = "{''out/validated'', ''out/drift_report'', ''out'', ''in''}"
  let ?w1 = "\<lparr>files = files sample_world, dirs = ?d1, logged = ?log\<rparr>"
  let ?w2 = "\<lparr>files = ?f2, dirs = ?d1, logged = ?log\<rparr>"
  let ?w3 = "\<lparr>files = ?f2, dirs = ?d3, logged = ?log\<rparr>"
  let ?w4 = "\<lparr>files = ?f4, dirs = ?d3, logged = ?log\<rparr>"
  let ?w5 = "\<lparr>files = ?f5, dirs = ?d3, logged = ?log\<rparr>"
  have ext: "pd_read_csv sample_ext = sample_read_csv" "pd_to_csv sample_ext = sample_to_csv"
    "ks_2samp sample_ext = sample_ks_2samp"
    by (simp_all add: sample_ext_def)
  have cfg: "data_validation_config sample_validator = sample_config"
    "data_ingestion_artifact sample_validator = sample_ingestion"
    "schema_config sample_validator = sample_schema"
    by (simp_all add: sample_validator_def)
  have files: "files sample_world ''in/train.csv'' = Some (Text train_text)"
    "files sample_world ''in/test.csv'' = Some (Text test_text)"
    by (simp_all add: sample_world_def)
  have loop: "drift_loop sample_ext table_a table_a default_threshold (df_columns table_a)
      True [] = Inr (True, ?report)"
    by (simp add: ext ks_column_def df_getitem_def df_columns_def table_a_def
        sample_ks_2samp_def default_threshold_def Let_def)
  have m1: "makedirs ''out/drift_report'' (sample_world\<lparr>logged := logged sample_world @ ?log\<rparr>)
      = Inr ?w1"
    by (simp add: fs_defs sample_world_def insert_commute)
  have wr1: "write_file ''out/drift_report/report.yaml'' (Document (PyDict ?report)) ?w1
      = Inr ?w2"
    by (simp add: fs_defs)
  have m2: "makedirs ''out/validated'' ?w2 = Inr ?w3"
    by (simp add: fs_defs sample_world_def)
  have wr2: "write_file ''out/validated/train.csv'' (Text test_text) ?w3 = Inr ?w4"
    by (simp add: fs_defs)
  have wr3: "write_file ''out/validated/test.csv'' (Text test_text) ?w4 = Inr ?w5"
    by (simp add: fs_defs)
  show ?thesis
    unfolding initiate_data_validation_Inr
    apply (rule exI [where x = "Text train_text"])
    apply (rule exI [where x = "Text test_text"])
    apply (rule exI [where x = table_a])
    apply (rule exI [where x = table_a])
    apply (rule exI [where x = "PyDict [(''a'', PyStr ''int64''), (''b'', PyStr ''int64'')]"])
    apply (rule exI [where x = 2])
    apply (rule exI [where x = "[''a'', ''b'']"])
    apply (rule exI [where x = ?report])
    apply (rule exI [where x = ?w1])
    apply (rule exI [where x = ?w2])
    apply (rule exI [where x = ?w3])
    apply (rule exI [where x = ?w4])
    apply (rule exI [where x = ?w5])
    apply (simp only: cfg ext files sample_read_train sample_read_test sample_write_table_a
        loop)
    apply (simp add: sample_ingestion_def sample_config_def sample_schema_def
        sample_artifact_def df_shape1_def df_columns_def table_a_def files m1 wr1 m2 wr2 wr3
        del: fun_upd_apply)
    apply (simp add: dirname_def Let_def m1 wr1 m2 wr2 wr3 del: fun_upd_apply)
    apply simp
    done
qed

text \<open>Runs of the orchestrator that stop at a structural check, and runs that raise.\<close>

lemma py_keys_len: "py_keys cols = Inr required \<Longrightarrow> py_len cols = Inr (length required)"
  by (cases cols) auto

lemmas orchestrator_defs =
  initiate_data_validation_def at_line_def except_Exception_def read_data_def
  validate_number_of_columns_def validate_required_columns_def Let_def logging_info_def

lemma run_fails_102:
  assumes "files w (trained_file_path (data_ingestion_artifact self)) = Some h1"
    and "pd_read_csv ext h1 = Inr train_df"
    and "files w (test_file_path (data_ingestion_artifact self)) = Some h2"
    and "pd_read_csv ext h2 = Inr test_df"
    and "py_getitem (schema_config self) ''columns'' = Inr cols"
    and "py_len cols = Inr k"
    and "df_shape1 train_df \<noteq> k"
  shows "initiate_data_validation ext self w
           = (Inl (NetworkSecurityException
                (Exception ''Number of columns do not match schema for training data.'') 102),
              w\<lparr>logged := logged w @ [Required_number_of_columns k,
                                       DataFrame_has_columns (df_shape1 train_df)]\<rparr>)"
  using assms by (simp add: orchestrator_defs)

lemma run_fails_104:
  assumes "files w (trained_file_path (data_ingestion_artifact self)) = Some h1"
    and "pd_read_csv ext h1 = Inr train_df"
    and "files w (test_file_path (data_ingestion_artifact self)) = Some h2"
    and "pd_read_csv ext h2 = Inr test_df"
    and "py_getitem (schema_config self) ''columns'' = Inr cols"
    and "py_len cols = Inr k"
    and "df_shape1 train_df = k"
    and "df_shape1 test_df \<noteq> k"
  shows "initiate_data_validation ext self w
           = (Inl (NetworkSecurityException
                (Exception ''Number of columns do not match schema for testing data.'') 104),
              w\<lparr>logged := logged w @ [Required_number_of_columns k, DataFrame_has_columns k,
                                       Required_number_of_columns k,
                                       DataFrame_has_columns (df_shape1 test_df)]\<rparr>)"
  using assms by (simp add: orchestrator_defs)

lemma run_fails_108:
  assumes "files w (trained_file_path (data_ingestion_artifact self)) = Some h1"
    and "pd_read_csv ext h1 = Inr train_df"
    and "files w (test_file_path (data_ingestion_artifact self)) = Some h2"
    and "pd_read_csv ext h2 = Inr test_df"
    and "py_getitem (schema_config self) ''columns'' = Inr cols"
    and "py_len cols = Inr k"
    and "df_shape1 train_df = k"
    and "df_shape1 test_df = k"
    and "py_keys cols = Inr required"
    and "\<not> set required \<subseteq> set (df_columns train_df)"
  shows "initiate_data_validation ext self w
           = (Inl (NetworkSecurityException
                (Exception ''Required columns missing in training data.'') 108),
              w\<lparr>logged := logged w @ [Required_number_of_columns k, DataFrame_has_columns k,
                   Required_number_of_columns k, DataFrame_has_columns k,
                   Missing_columns (filter (\<lambda>col. col \<notin> set (df_columns train_df))
                                      required)]\<rparr>)"
  using assms by (auto simp add: orchestrator_defs filter_empty_conv)

lemma run_fails_110:
  assumes "files w (trained_file_path (data_ingestion_artifact self)) = Some h1"
    and "pd_read_csv ext h1 = Inr train_df"
    and "files w (test_file_path (data_ingestion_artifact self)) = Some h2"
    and "pd_read_csv ext h2 = Inr test_df"
    and "py_getitem (schema_config self) ''columns'' = Inr cols"
    and "py_len cols = Inr k"
    and "df_shape1 train_df = k"
    and "df_shape1 test_df = k"
    and "py_keys cols = Inr required"
    and "set required \<subseteq> set (df_columns train_df)"
    and "\<not> set required \<subseteq> set (df_columns test_df)"
  shows "initiate_data_validation ext self w
           = (Inl (NetworkSecurityException
                (Exception ''Required columns missing in testing data.'') 110),
              w\<lparr>logged := logged w @ [Required_number_of_columns k, DataFrame_has_columns k,
                   Required_number_of_columns k, DataFrame_has_columns k,
                   Missing_columns (filter (\<lambda>col. col \<notin> set (df_columns test_df))
                                      required)]\<rparr>)"
  using assms by (auto simp add: orchestrator_defs filter_empty_conv)







lemma sample_read_short: "sample_read_csv (Text short_text) = Inr table_short"
  by (simp add: sample_read_csv_def short_text_def table_short_def newline_def parse_int_def
      digit_value_def Let_def)

lemma sample_read_renamed: "sample_read_csv (Text renamed_text) = Inr table_renamed"
  by (simp add: sample_read_csv_def renamed_text_def table_renamed_def newline_def
      parse_int_def digit_value_def Let_def)


text \<open>The test of one column, by the samples it takes and what the routine does.\<close>

lemma ks_column_Inr:
  "ks_column ext base cur c = Inr p \<longleftrightarrow>
     (\<exists>d1 d2. map_of base c = Some d1 \<and> map_of cur c = Some d2 \<and> ks_2samp ext d1 d2 = Inr p)"
  by (auto simp add: ks_column_def df_getitem_def split: option.splits sum.splits)


text \<open>The keys of the report: the labels in the order in which they first occur.\<close>

lemma first_occurrences_snoc:
  "rev (remdups (rev (xs @ [x])))
     = (if x \<in> set xs then rev (remdups (rev xs)) else rev (remdups (rev xs)) @ [x])"
  by simp

lemma drift_loop_keys_general:
  "drift_loop ext base cur \<alpha> cols status report = Inr (status', report') \<Longrightarrow>
     map fst report = rev (remdups (rev seen)) \<Longrightarrow>
     map fst report' = rev (remdups (rev (seen @ cols)))"
proof (induction cols arbitrary: status report seen)
  case Nil
  then show ?case by simp
next
  case (Cons a cols)
  from Cons.prems(1) obtain p where p: "ks_column ext base cur a = Inr p"
    by (auto split: sum.splits)
  let ?r1 = "AList.update a (report_entry p (float_lt p \<alpha>)) report"
  from Cons.prems(1) p have rest:
    "drift_loop ext base cur \<alpha> cols (if float_lt p \<alpha> then False else status) ?r1
       = Inr (status', report')"
    by (simp add: Let_def)
  have "set (map fst report) = set seen"
    by (simp add: Cons.prems(2))
  then have "map fst ?r1 = rev (remdups (rev (seen @ [a])))"
    unfolding first_occurrences_snoc AList.update_keys
    by (simp add: Cons.prems(2))
  from Cons.IH [OF rest this] show ?case
    by simp
qed


text \<open>The drift detection in the sample world, given what the loop returns.\<close>

lemma sample_detect:
  assumes "drift_loop sample_ext base cur \<alpha> (df_columns base) True [] = Inr (status, report)"
  shows "detect_dataset_drift sample_ext sample_validator base cur \<alpha> sample_world
           = (Inr status,
              \<lparr>files = (files sample_world)(''out/drift_report/report.yaml''
                          \<mapsto> Document (PyDict report)),
               dirs = {''out/drift_report'', ''out'', ''in''}, logged = []\<rparr>)"
proof -
  let ?w1 = "\<lparr>files = files sample_world, dirs = {''out/drift_report'', ''out'', ''in''},
              logged = []\<rparr>"
  have path: "drift_report_file_path (data_validation_config sample_validator)
                = ''out/drift_report/report.yaml''"
    by (simp add: sample_validator_def sample_config_def)
  have d: "dirname ''out/drift_report/report.yaml'' = ''out/drift_report''"
    by (simp add: dirname_def)
  have m: "makedirs ''out/drift_report'' sample_world = Inr ?w1"
    by (simp add: fs_defs sample_world_def insert_commute)
  have wr: "write_file ''out/drift_report/report.yaml'' (Document (PyDict report)) ?w1
      = Inr \<lparr>files = (files sample_world)(''out/drift_report/report.yaml''
                         \<mapsto> Document (PyDict report)),
              dirs = {''out/drift_report'', ''out'', ''in''}, logged = []\<rparr>"
    by (simp add: fs_defs)
  show ?thesis
    unfolding detect_dataset_drift_Inr_iff path d
    using assms m wr by blast
qed

section \<open>The structural checks\<close>

text \<open>
  Claim C6. For a schema whose \<^verbatim>\<open>columns\<close> entry has \<open>k\<close> members (\<open>k = 0\<close>
  included), the column-count check returns true exactly when the table has \<open>k\<close>
  columns. It looks at nothing but the number of columns: two tables with equally many
  columns, whatever their names and cells, get the same answer.
\<close>

theorem count_columns_match:
  assumes "py_getitem (schema_config self) ''columns'' = Inr cols"
    and "py_len cols = Inr k"
  shows "fst (validate_number_of_columns self dataframe w)
           = Inr (length (df_columns dataframe) = k)
         \<and> (length (df_columns other) = length (df_columns dataframe)
              \<longrightarrow> fst (validate_number_of_columns self other w)
                    = fst (validate_number_of_columns self dataframe w))"
  using assms
  by (simp add: validate_number_of_columns_def except_Exception_def df_shape1_def
      df_columns_def Let_def)

theorem count_columns_match_witness:
  "fst (validate_number_of_columns sample_validator table_a sample_world) = Inr True
   \<and> fst (validate_number_of_columns sample_validator table_short sample_world) = Inr False
   \<and> fst (validate_number_of_columns sample_validator table_shifted sample_world)
       = fst (validate_number_of_columns sample_validator table_a sample_world)
   \<and> fst (validate_number_of_columns
            (sample_validator\<lparr>schema_config := PyDict [(''columns'', PyDict [])]\<rparr>)
            ([] :: int dataframe) sample_world) = Inr True
   \<and> fst (validate_number_of_columns
            (sample_validator\<lparr>schema_config := PyDict [(''columns'', PyDict [])]\<rparr>)
            table_short sample_world) = Inr False"
proof -
  let ?empty = "sample_validator\<lparr>schema_config := PyDict [(''columns'', PyDict [])]\<rparr>"
  have g: "py_getitem (schema_config sample_validator) ''columns''
             = Inr (PyDict [(''a'', PyStr ''int64''), (''b'', PyStr ''int64'')])"
    by (simp add: sample_validator_def sample_schema_def)
  have l: "py_len (PyDict [(''a'', PyStr ''int64''), (''b'', PyStr ''int64'')]) = Inr 2"
    by simp
  have g0: "py_getitem (schema_config ?empty) ''columns'' = Inr (PyDict [])"
    by simp
  have l0: "py_len (PyDict []) = Inr 0"
    by simp
  show ?thesis
    using count_columns_match [OF g l, of table_a sample_world table_shifted]
      count_columns_match [OF g l, of table_short sample_world table_short]
      count_columns_match [OF g0 l0, of "[] :: int dataframe" sample_world
        "[] :: int dataframe"]
      count_columns_match [OF g0 l0, of table_short sample_world table_short]
    by (simp add: table_a_def table_short_def table_shifted_def df_columns_def)
qed

text \<open>
  Claim C5. The required-columns check returns true exactly when every column name the
  schema declares is among the table's column names, as sets: the order of the columns
  and columns the schema does not declare make no difference. When a declared column is
  missing the check returns false, and the list of missing columns it logs is, as a set,
  the declared names without the table's names.
\<close>

theorem required_columns_present:
  assumes "py_getitem (schema_config self) ''columns'' = Inr cols"
    and "py_keys cols = Inr required"
  shows "fst (validate_required_columns self dataframe w)
           = Inr (set required \<subseteq> set (df_columns dataframe))
         \<and> (\<not> set required \<subseteq> set (df_columns dataframe) \<longrightarrow>
              (\<exists>missing. logged (snd (validate_required_columns self dataframe w))
                            = logged w @ [Missing_columns missing]
                 \<and> set missing = set required - set (df_columns dataframe)))"
  using assms
  by (auto simp add: validate_required_columns_def except_Exception_def Let_def
      logging_info_def filter_empty_conv)

theorem required_columns_present_witness:
  "fst (validate_required_columns sample_validator table_a sample_world) = Inr True
   \<and> fst (validate_required_columns sample_validator
            [(''b'', [1]), (''extra'', [0]), (''a'', [2 :: int])] sample_world) = Inr True
   \<and> fst (validate_required_columns sample_validator table_short sample_world) = Inr False
   \<and> (\<exists>missing. logged (snd (validate_required_columns sample_validator table_short
                                 sample_world)) = [Missing_columns missing]
         \<and> set missing = {''b''})"
proof -
  have g: "py_getitem (schema_config sample_validator) ''columns''
             = Inr (PyDict [(''a'', PyStr ''int64''), (''b'', PyStr ''int64'')])"
    by (simp add: sample_validator_def sample_schema_def)
  have k: "py_keys (PyDict [(''a'', PyStr ''int64''), (''b'', PyStr ''int64'')])
             = Inr [''a'', ''b'']"
    by simp
  have d: "set [''a'', ''b''] - set (df_columns table_short) = {''b''}"
    by (auto simp add: table_short_def df_columns_def)
  have e: "logged sample_world = []"
    by (simp add: sample_world_def)
  show ?thesis
    using required_columns_present [OF g k, of table_a sample_world]
      required_columns_present [OF g k, of
        "[(''b'', [1]), (''extra'', [0]), (''a'', [2 :: int])]" sample_world]
      required_columns_present [OF g k, of table_short sample_world]
    unfolding d e
    by (simp add: table_a_def table_short_def df_columns_def)
qed

section \<open>Drift detection\<close>

text \<open>
  Claim C1. Whenever the drift detection returns, for whatever threshold \<open>\<alpha>\<close> (0.05 is
  only the default), every column of the base table has been tested: its samples are
  the column of that name in the base table and in the current table, the KS routine
  has returned a p-value for them, and the entry stored for the column in the report is
  the dictionary of this p-value and of the verdict \<open>p_value < \<alpha>\<close>, each column being
  compared with \<open>\<alpha>\<close> on its own. The status returned is the negation of "some column
  has drifted": one drifting column makes it false. Tables with identical column sets
  are a special case: the theorem asks nothing of the tables.
\<close>

theorem drift_verdict_per_column:
  assumes "detect_dataset_drift ext self base_df current_df \<alpha> w = (Inr status, w')"
  shows "\<exists>report.
           files w' (drift_report_file_path (data_validation_config self))
             = Some (Document (PyDict report))
           \<and> (\<forall>c \<in> set (map fst base_df). \<exists>d1 d2 p.
                 map_of base_df c = Some d1 \<and> map_of current_df c = Some d2
                 \<and> ks_2samp ext d1 d2 = Inr p
                 \<and> map_of report c
                     = Some (PyDict [(''p_value'', PyFloat p),
                                     (''drift_status'', PyBool (float_lt p \<alpha>))]))
           \<and> status = (\<not> (\<exists>c \<in> set (map fst base_df). \<exists>d1 d2 p.
                 map_of base_df c = Some d1 \<and> map_of current_df c = Some d2
                 \<and> ks_2samp ext d1 d2 = Inr p \<and> float_lt p \<alpha>))"
proof -
  from detect_dataset_drift_Inr [OF assms] obtain report where
    loop: "drift_loop ext base_df current_df \<alpha> (df_columns base_df) True []
             = Inr (status, report)"
    and w': "files w' (drift_report_file_path (data_validation_config self))
             = Some (Document (PyDict report))"
    by auto
  have entries: "\<forall>c \<in> set (map fst base_df). \<exists>d1 d2 p.
      map_of base_df c = Some d1 \<and> map_of current_df c = Some d2
      \<and> ks_2samp ext d1 d2 = Inr p
      \<and> map_of report c
          = Some (PyDict [(''p_value'', PyFloat p),
                          (''drift_status'', PyBool (float_lt p \<alpha>))])"
  proof
    fix c
    assume "c \<in> set (map fst base_df)"
    with drift_loop_map_of [OF loop, of c] obtain p where
      "ks_column ext base_df current_df c = Inr p"
      "map_of report c = Some (report_entry p (float_lt p \<alpha>))"
      by (auto simp add: df_columns_def)
    then show "\<exists>d1 d2 p. map_of base_df c = Some d1 \<and> map_of current_df c = Some d2
      \<and> ks_2samp ext d1 d2 = Inr p
      \<and> map_of report c
          = Some (PyDict [(''p_value'', PyFloat p),
                          (''drift_status'', PyBool (float_lt p \<alpha>))])"
      unfolding ks_column_Inr report_entry_def by blast
  qed
  have "status = (\<forall>c \<in> set (map fst base_df). \<forall>p.
      ks_column ext base_df current_df c = Inr p \<longrightarrow> \<not> float_lt p \<alpha>)"
    using drift_loop_status [OF loop] by (simp add: df_columns_def)
  then have "status = (\<not> (\<exists>c \<in> set (map fst base_df). \<exists>d1 d2 p.
      map_of base_df c = Some d1 \<and> map_of current_df c = Some d2
      \<and> ks_2samp ext d1 d2 = Inr p \<and> float_lt p \<alpha>))"
    unfolding ks_column_Inr by blast
  with w' entries show ?thesis
    by (intro exI [where x = report] conjI)
qed

theorem drift_verdict_per_column_witness:
  "fst (detect_dataset_drift sample_ext sample_validator table_a table_shifted
          default_threshold sample_world) = Inr False
   \<and> (\<exists>report.
         files (snd (detect_dataset_drift sample_ext sample_validator table_a table_shifted
                       default_threshold sample_world)) ''out/drift_report/report.yaml''
           = Some (Document (PyDict report))
         \<and> map_of report ''a''
             = Some (PyDict [(''p_value'', PyFloat (Finite (2 / 70))),
                             (''drift_status'', PyBool True)])
         \<and> map_of report ''b''
             = Some (PyDict [(''p_value'', PyFloat (Finite 1)),
                             (''drift_status'', PyBool False)]))"
proof -
  let ?run = "detect_dataset_drift sample_ext sample_validator table_a table_shifted
                default_threshold sample_world"
  have ext: "ks_2samp sample_ext = sample_ks_2samp"
    by (simp add: sample_ext_def)
  have loop: "drift_loop sample_ext table_a table_shifted default_threshold
      (df_columns table_a) True []
      = Inr (False, [(''a'', report_entry (Finite (2 / 70)) True),
                     (''b'', report_entry (Finite 1) False)])"
    by (simp add: ext ks_column_def df_getitem_def df_columns_def table_a_def
        table_shifted_def sample_ks_2samp_def default_threshold_def Let_def)
  have run: "?run = (Inr False, snd ?run)"
    by (simp add: sample_detect [OF loop])
  have samples: "map_of table_a ''a'' = Some [1, 2, 3, 4]"
    "map_of table_shifted ''a'' = Some [5, 6, 7, 8]"
    "map_of table_a ''b'' = Some [1, 1, 1, 1]"
    "map_of table_shifted ''b'' = Some [1, 1, 1, 1]"
    by (simp_all add: table_a_def table_shifted_def)
  have ks: "sample_ks_2samp [1, 2, 3, 4] [5, 6, 7, 8] = Inr (Finite (2 / 70))"
    "sample_ks_2samp [1, 1, 1, 1] [1, 1, 1, 1] = Inr (Finite 1)"
    by (simp_all add: sample_ks_2samp_def)
  have cols: "''a'' \<in> set (map fst table_a)" "''b'' \<in> set (map fst table_a)"
    by (simp_all add: table_a_def)
  have path: "drift_report_file_path (data_validation_config sample_validator)
                = ''out/drift_report/report.yaml''"
    by (simp add: sample_validator_def sample_config_def)
  from drift_verdict_per_column [OF run] obtain report where
    r: "files (snd ?run) ''out/drift_report/report.yaml'' = Some (Document (PyDict report))"
    and e: "\<forall>c \<in> set (map fst table_a). \<exists>d1 d2 p.
              map_of table_a c = Some d1 \<and> map_of table_shifted c = Some d2
              \<and> ks_2samp sample_ext d1 d2 = Inr p
              \<and> map_of report c
                  = Some (PyDict [(''p_value'', PyFloat p),
                                  (''drift_status'', PyBool (float_lt p default_threshold))])"
    unfolding path by (elim exE conjE)
  from e [rule_format, OF cols(1)]
  have ea: "map_of report ''a''
      = Some (PyDict [(''p_value'', PyFloat (Finite (2 / 70))),
                      (''drift_status'', PyBool True)])"
    unfolding samples ext by (auto simp add: ks default_threshold_def)
  from e [rule_format, OF cols(2)]
  have eb: "map_of report ''b''
      = Some (PyDict [(''p_value'', PyFloat (Finite 1)), (''drift_status'', PyBool False)])"
    unfolding samples ext by (auto simp add: ks default_threshold_def)
  from r ea eb have "\<exists>report.
      files (snd ?run) ''out/drift_report/report.yaml'' = Some (Document (PyDict report))
      \<and> map_of report ''a''
          = Some (PyDict [(''p_value'', PyFloat (Finite (2 / 70))),
                          (''drift_status'', PyBool True)])
      \<and> map_of report ''b''
          = Some (PyDict [(''p_value'', PyFloat (Finite 1)),
                          (''drift_status'', PyBool False)])"
    by (rule_tac x = report in exI) simp
  moreover from run have "fst ?run = Inr False"
    by (rule arg_cong [where f = fst, THEN trans]) simp
  ultimately show ?thesis by simp
qed

text \<open>
  Claim C4, as it stands, fails: the p-value stored is whatever float the KS routine
  returns, and it need not be a probability. For two tables without rows the routine
  returns NaN; NaN is stored for each column and the detection returns true.
\<close>

theorem nan_p_value_is_recorded:
  "map_of table_no_rows ''a'' = Some []
   \<and> fst (detect_dataset_drift sample_ext sample_validator table_no_rows table_no_rows
            default_threshold sample_world) = Inr True
   \<and> files (snd (detect_dataset_drift sample_ext sample_validator table_no_rows
                    table_no_rows default_threshold sample_world))
        ''out/drift_report/report.yaml''
       = Some (Document (PyDict
           [(''a'', PyDict [(''p_value'', PyFloat NaN), (''drift_status'', PyBool False)]),
            (''b'', PyDict [(''p_value'', PyFloat NaN), (''drift_status'', PyBool False)])]))
   \<and> \<not> is_probability NaN"
proof -
  have ext: "ks_2samp sample_ext = sample_ks_2samp"
    by (simp add: sample_ext_def)
  have loop: "drift_loop sample_ext table_no_rows table_no_rows default_threshold
      (df_columns table_no_rows) True []
      = Inr (True, [(''a'', report_entry NaN False), (''b'', report_entry NaN False)])"
    by (simp add: ext ks_column_def df_getitem_def df_columns_def table_no_rows_def
        sample_ks_2samp_def default_threshold_def Let_def)
  have "map_of table_no_rows ''a'' = Some []"
    by (simp add: table_no_rows_def)
  moreover have "\<not> is_probability NaN"
    by (simp add: is_probability_def)
  ultimately show ?thesis
    by (simp add: sample_detect [OF loop] report_entry_def)
qed

text \<open>
  Claim C4, amended. Whenever the drift detection returns, whatever the verdict, the
  file at the configured path holds the report. The report has one entry for each
  column label of the base table, in the order in which the labels first occur among
  its columns; for a table with distinct labels that is one entry per column, in the
  order of the columns. The entry of a column is the dictionary of \<^verbatim>\<open>p_value\<close>, the
  float the KS routine returned for the column's two samples, be it a probability or
  not, and of \<^verbatim>\<open>drift_status\<close>, the boolean \<open>p_value < \<alpha>\<close>.
\<close>

theorem drift_report_shape:
  assumes "detect_dataset_drift ext self base_df current_df \<alpha> w = (Inr status, w')"
  shows "\<exists>report.
           files w' (drift_report_file_path (data_validation_config self))
             = Some (Document (PyDict report))
           \<and> map fst report = rev (remdups (rev (map fst base_df)))
           \<and> (distinct (map fst base_df) \<longrightarrow> map fst report = map fst base_df)
           \<and> (\<forall>c \<in> set (map fst base_df). \<exists>d1 d2 p.
                 map_of base_df c = Some d1 \<and> map_of current_df c = Some d2
                 \<and> ks_2samp ext d1 d2 = Inr p
                 \<and> map_of report c
                     = Some (PyDict [(''p_value'', PyFloat p),
                                     (''drift_status'', PyBool (float_lt p \<alpha>))]))"
proof -
  from detect_dataset_drift_Inr [OF assms] obtain report where
    loop: "drift_loop ext base_df current_df \<alpha> (df_columns base_df) True []
             = Inr (status, report)"
    and w': "files w' (drift_report_file_path (data_validation_config self))
             = Some (Document (PyDict report))"
    by auto
  have keys: "map fst report = rev (remdups (rev (map fst base_df)))"
    using drift_loop_keys_general [OF loop, of "[]"] by (simp add: df_columns_def)
  have "rev (remdups (rev xs)) = xs" if "distinct xs" for xs :: "string list"
    using that by (simp add: distinct_remdups_id)
  with keys have ordered: "distinct (map fst base_df) \<longrightarrow> map fst report = map fst base_df"
    by simp
  have entries: "\<forall>c \<in> set (map fst base_df). \<exists>d1 d2 p.
      map_of base_df c = Some d1 \<and> map_of current_df c = Some d2
      \<and> ks_2samp ext d1 d2 = Inr p
      \<and> map_of report c
          = Some (PyDict [(''p_value'', PyFloat p),
                          (''drift_status'', PyBool (float_lt p \<alpha>))])"
  proof
    fix c
    assume "c \<in> set (map fst base_df)"
    with drift_loop_map_of [OF loop, of c] obtain p where
      "ks_column ext base_df current_df c = Inr p"
      "map_of report c = Some (report_entry p (float_lt p \<alpha>))"
      by (auto simp add: df_columns_def)
    then show "\<exists>d1 d2 p. map_of base_df c = Some d1 \<and> map_of current_df c = Some d2
      \<and> ks_2samp ext d1 d2 = Inr p
      \<and> map_of report c
          = Some (PyDict [(''p_value'', PyFloat p),
                          (''drift_status'', PyBool (float_lt p \<alpha>))])"
      unfolding ks_column_Inr report_entry_def by blast
  qed
  from w' keys ordered entries show ?thesis
    by (intro exI [where x = report] conjI)
qed

theorem drift_report_shape_witness:
  "fst (detect_dataset_drift sample_ext sample_validator table_a table_shifted
          default_threshold sample_world) = Inr False
   \<and> distinct (map fst table_a)
   \<and> (\<exists>report.
         files (snd (detect_dataset_drift sample_ext sample_validator table_a table_shifted
                       default_threshold sample_world)) ''out/drift_report/report.yaml''
           = Some (Document (PyDict report))
         \<and> map fst report = [''a'', ''b''])"
proof -
  let ?run = "detect_dataset_drift sample_ext sample_validator table_a table_shifted
                default_threshold sample_world"
  have ext: "ks_2samp sample_ext = sample_ks_2samp"
    by (simp add: sample_ext_def)
  have loop: "drift_loop sample_ext table_a table_shifted default_threshold
      (df_columns table_a) True []
      = Inr (False, [(''a'', report_entry (Finite (2 / 70)) True),
                     (''b'', report_entry (Finite 1) False)])"
    by (simp add: ext ks_column_def df_getitem_def df_columns_def table_a_def
        table_shifted_def sample_ks_2samp_def default_threshold_def Let_def)
  have run: "?run = (Inr False, snd ?run)"
    by (simp add: sample_detect [OF loop])
  have d: "distinct (map fst table_a)" and c: "map fst table_a = [''a'', ''b'']"
    by (simp_all add: table_a_def)
  have path: "drift_report_file_path (data_validation_config sample_validator)
                = ''out/drift_report/report.yaml''"
    by (simp add: sample_validator_def sample_config_def)
  from drift_report_shape [OF run] obtain report where
    "files (snd ?run) ''out/drift_report/report.yaml'' = Some (Document (PyDict report))"
    and "distinct (map fst table_a) \<longrightarrow> map fst report = map fst table_a"
    unfolding path by (elim exE conjE)
  with d c have "\<exists>report.
      files (snd ?run) ''out/drift_report/report.yaml'' = Some (Document (PyDict report))
      \<and> map fst report = [''a'', ''b'']"
    by (rule_tac x = report in exI) simp
  moreover from run have "fst ?run = Inr False"
    by (rule arg_cong [where f = fst, THEN trans]) simp
  ultimately show ?thesis using d by simp
qed




section \<open>The orchestrator\<close>

text \<open>
  Claim C9. A run of \<^verbatim>\<open>initiate_data_validation\<close> that returns hands back one record:
  its two invalid-path fields are \<open>None\<close>, its other paths are those of the configuration,
  and it is the record of the one "completed" entry that the run appends, last, to the
  log.
\<close>

theorem result_record:
  assumes "initiate_data_validation ext self w = (Inr a, w')"
  shows "invalid_train_file_path a = None \<and> invalid_test_file_path a = None
         \<and> artifact_valid_train_file_path a = valid_train_file_path (data_validation_config self)
         \<and> artifact_valid_test_file_path a = valid_test_file_path (data_validation_config self)
         \<and> artifact_drift_report_file_path a
             = drift_report_file_path (data_validation_config self)
         \<and> (\<exists>entries. logged w' = logged w @ entries @ [Data_validation_completed a]
               \<and> (\<forall>x \<in> set entries. \<forall>b. x \<noteq> Data_validation_completed b))"
proof -
  from initiate_data_validation_effects [OF assms] obtain k where
    a: "a = \<lparr>validation_status = validation_status a,
             artifact_valid_train_file_path = valid_train_file_path (data_validation_config self),
             artifact_valid_test_file_path = valid_test_file_path (data_validation_config self),
             invalid_train_file_path = None, invalid_test_file_path = None,
             artifact_drift_report_file_path
               = drift_report_file_path (data_validation_config self)\<rparr>"
    and l: "logged w' = logged w @
              [Required_number_of_columns k, DataFrame_has_columns k,
               Required_number_of_columns k, DataFrame_has_columns k,
               Data_validation_completed a]"
    by (elim exE conjE) simp
  let ?entries = "[Required_number_of_columns k, DataFrame_has_columns k,
                   Required_number_of_columns k, DataFrame_has_columns k]"
  have "logged w' = logged w @ ?entries @ [Data_validation_completed a]
        \<and> (\<forall>x \<in> set ?entries. \<forall>b. x \<noteq> Data_validation_completed b)"
    using l by simp
  then have "\<exists>entries. logged w' = logged w @ entries @ [Data_validation_completed a]
               \<and> (\<forall>x \<in> set entries. \<forall>b. x \<noteq> Data_validation_completed b)"
    by (rule exI [where x = ?entries])
  moreover have "invalid_train_file_path a = None" "invalid_test_file_path a = None"
    "artifact_valid_train_file_path a = valid_train_file_path (data_validation_config self)"
    "artifact_valid_test_file_path a = valid_test_file_path (data_validation_config self)"
    "artifact_drift_report_file_path a = drift_report_file_path (data_validation_config self)"
    by (subst a, simp)+
  ultimately show ?thesis by simp
qed

theorem result_record_witness:
  "initiate_data_validation sample_ext sample_validator sample_world
     = (Inr sample_artifact,
        snd (initiate_data_validation sample_ext sample_validator sample_world))
   \<and> invalid_train_file_path sample_artifact = None
   \<and> invalid_test_file_path sample_artifact = None
   \<and> (\<exists>entries.
         logged (snd (initiate_data_validation sample_ext sample_validator sample_world))
           = logged sample_world @ entries @ [Data_validation_completed sample_artifact])"
proof -
  let ?run = "initiate_data_validation sample_ext sample_validator sample_world"
  have run: "?run = (Inr sample_artifact, snd ?run)"
    by (simp add: sample_run)
  from result_record [OF run]
  have "invalid_train_file_path sample_artifact = None"
    "invalid_test_file_path sample_artifact = None"
    "\<exists>entries. logged (snd ?run)
        = logged sample_world @ entries @ [Data_validation_completed sample_artifact]
      \<and> (\<forall>x \<in> set entries. \<forall>b. x \<noteq> Data_validation_completed b)"
    by simp_all
  then obtain entries where "invalid_train_file_path sample_artifact = None"
    "invalid_test_file_path sample_artifact = None"
    "logged (snd ?run)
        = logged sample_world @ entries @ [Data_validation_completed sample_artifact]"
    by (elim exE conjE)
  then have "invalid_train_file_path sample_artifact = None
    \<and> invalid_test_file_path sample_artifact = None
    \<and> (\<exists>entries. logged (snd ?run)
        = logged sample_world @ entries @ [Data_validation_completed sample_artifact])"
    by (intro conjI exI [where x = entries])
  with run show ?thesis by (intro conjI) simp_all
qed

text \<open>
  Claim C3. In a run in which both tables are read and one of the four structural
  checks (column count, then required columns, each on the train and on the test table)
  answers false, \<^verbatim>\<open>initiate_data_validation\<close> raises \<open>NetworkSecurityException\<close> around
  the \<open>Exception\<close> of that check. The drift detection is not reached: no file is written
  and no directory made, so there is no drift report, and the outcome is the same
  whatever the KS routine is.
\<close>

theorem structural_failure_stops_the_run:
  assumes train: "fst (read_data ext (trained_file_path (data_ingestion_artifact self)) w)
                    = Inr train_df"
    and test: "fst (read_data ext (test_file_path (data_ingestion_artifact self)) w)
                 = Inr test_df"
    and fails: "fst (validate_number_of_columns self train_df w) = Inr False
        \<or> fst (validate_number_of_columns self test_df w) = Inr False
        \<or> fst (validate_required_columns self train_df w) = Inr False
        \<or> fst (validate_required_columns self test_df w) = Inr False"
  shows "\<exists>msg l w'.
           initiate_data_validation ext self w
             = (Inl (NetworkSecurityException (Exception msg) l), w')
           \<and> (msg = ''Number of columns do not match schema for training data.'' \<and> l = 102
              \<or> msg = ''Number of columns do not match schema for testing data.'' \<and> l = 104
              \<or> msg = ''Required columns missing in training data.'' \<and> l = 108
              \<or> msg = ''Required columns missing in testing data.'' \<and> l = 110)
           \<and> files w' = files w \<and> dirs w' = dirs w
           \<and> (\<forall>ks. initiate_data_validation (ext\<lparr>ks_2samp := ks\<rparr>) self w
                    = initiate_data_validation ext self w)"
proof -
  let ?train_path = "trained_file_path (data_ingestion_artifact self)"
  let ?test_path = "test_file_path (data_ingestion_artifact self)"
  from train obtain h1 where h1: "files w ?train_path = Some h1"
    "pd_read_csv ext h1 = Inr train_df"
    by (cases "read_data ext ?train_path w") (auto simp add: read_data_Inr)
  from test obtain h2 where h2: "files w ?test_path = Some h2"
    "pd_read_csv ext h2 = Inr test_df"
    by (cases "read_data ext ?test_path w") (auto simp add: read_data_Inr)
  have count: "\<exists>cols k. py_getitem (schema_config self) ''columns'' = Inr cols
      \<and> py_len cols = Inr k \<and> ok = (df_shape1 df = k)"
    if "fst (validate_number_of_columns self df w) = Inr ok" for df :: "'a dataframe" and ok
    using that by (cases "validate_number_of_columns self df w")
      (auto simp add: validate_number_of_columns_Inr)
  have required: "\<exists>cols required. py_getitem (schema_config self) ''columns'' = Inr cols
      \<and> py_keys cols = Inr required \<and> ok = (set required \<subseteq> set (df_columns df))"
    if "fst (validate_required_columns self df w) = Inr ok" for df :: "'a dataframe" and ok
    using that by (cases "validate_required_columns self df w")
      (auto simp add: validate_required_columns_Inr)
  from fails count required py_keys_len obtain cols k where
    cols: "py_getitem (schema_config self) ''columns'' = Inr cols" "py_len cols = Inr k"
    by blast
  have other: "pd_read_csv (ext\<lparr>ks_2samp := ks\<rparr>) h1 = Inr train_df"
    "pd_read_csv (ext\<lparr>ks_2samp := ks\<rparr>) h2 = Inr test_df" for ks
    using h1 h2 by simp_all
  note reads = h1 h2
  note reads' = h1(1) other(1) h2(1) other(2)
  show ?thesis
  proof (cases "df_shape1 train_df = k")
    case False
    show ?thesis
      using run_fails_102 [OF reads cols False] run_fails_102 [OF reads' cols False]
      by simp
  next
    case train_k: True
    show ?thesis
    proof (cases "df_shape1 test_df = k")
      case False
      show ?thesis
        using run_fails_104 [OF reads cols train_k False]
          run_fails_104 [OF reads' cols train_k False]
        by simp
    next
      case test_k: True
      from fails count [of train_df False] count [of test_df False] cols train_k test_k
      have "fst (validate_required_columns self train_df w) = Inr False
        \<or> fst (validate_required_columns self test_df w) = Inr False"
        by auto
      with required cols obtain required where
        keys: "py_keys cols = Inr required"
        and missing: "\<not> set required \<subseteq> set (df_columns train_df)
          \<or> \<not> set required \<subseteq> set (df_columns test_df)"
        by fastforce
      show ?thesis
      proof (cases "set required \<subseteq> set (df_columns train_df)")
        case False
        show ?thesis
          using run_fails_108 [OF reads cols train_k test_k keys False]
            run_fails_108 [OF reads' cols train_k test_k keys False]
          by simp
      next
        case True
        with missing have m: "\<not> set required \<subseteq> set (df_columns test_df)"
          by simp
        show ?thesis
          using run_fails_110 [OF reads cols train_k test_k keys True m]
            run_fails_110 [OF reads' cols train_k test_k keys True m]
          by simp
      qed
    qed
  qed
qed


theorem structural_failure_stops_the_run_witness:
  "fst (read_data sample_ext ''in/train.csv'' (world_with_train short_text)) = Inr table_short
   \<and> fst (validate_number_of_columns sample_validator table_short
            (world_with_train short_text)) = Inr False
   \<and> (\<exists>msg l w'.
         initiate_data_validation sample_ext sample_validator (world_with_train short_text)
           = (Inl (NetworkSecurityException (Exception msg) l), w')
         \<and> files w' = files (world_with_train short_text)
         \<and> dirs w' = dirs (world_with_train short_text))
   \<and> fst (read_data sample_ext ''in/train.csv'' (world_with_train renamed_text))
       = Inr table_renamed
   \<and> fst (validate_required_columns sample_validator table_renamed
            (world_with_train renamed_text)) = Inr False
   \<and> (\<exists>msg l w'.
         initiate_data_validation sample_ext sample_validator (world_with_train renamed_text)
           = (Inl (NetworkSecurityException (Exception msg) l), w')
         \<and> files w' = files (world_with_train renamed_text)
         \<and> dirs w' = dirs (world_with_train renamed_text))"
proof -
  have paths: "trained_file_path (data_ingestion_artifact sample_validator) = ''in/train.csv''"
    "test_file_path (data_ingestion_artifact sample_validator) = ''in/test.csv''"
    by (simp_all add: sample_validator_def sample_ingestion_def)
  have ext: "pd_read_csv sample_ext = sample_read_csv"
    by (simp add: sample_ext_def)
  have train: "fst (read_data sample_ext ''in/train.csv'' (world_with_train short_text))
      = Inr table_short"
    "fst (read_data sample_ext ''in/train.csv'' (world_with_train renamed_text))
      = Inr table_renamed"
    by (simp_all add: read_data_def except_Exception_def world_with_train_def ext
        sample_read_short sample_read_renamed)
  have test: "fst (read_data sample_ext ''in/test.csv'' (world_with_train t))
      = Inr table_a" for t
    by (simp add: read_data_def except_Exception_def world_with_train_def sample_world_def
        ext sample_read_test)
  have count: "fst (validate_number_of_columns sample_validator table_short
      (world_with_train short_text)) = Inr False"
    by (simp add: validate_number_of_columns_def except_Exception_def sample_validator_def
        sample_schema_def df_shape1_def table_short_def Let_def)
  have names: "fst (validate_required_columns sample_validator table_renamed
      (world_with_train renamed_text)) = Inr False"
    by (simp add: validate_required_columns_def except_Exception_def sample_validator_def
        sample_schema_def df_columns_def table_renamed_def Let_def)
  have one: "\<exists>msg l w'.
      initiate_data_validation sample_ext sample_validator (world_with_train short_text)
        = (Inl (NetworkSecurityException (Exception msg) l), w')
      \<and> files w' = files (world_with_train short_text)
      \<and> dirs w' = dirs (world_with_train short_text)"
    using structural_failure_stops_the_run [of sample_ext sample_validator
        "world_with_train short_text" table_short table_a]
      train(1) test count
    unfolding paths by blast
  have two: "\<exists>msg l w'.
      initiate_data_validation sample_ext sample_validator (world_with_train renamed_text)
        = (Inl (NetworkSecurityException (Exception msg) l), w')
      \<and> files w' = files (world_with_train renamed_text)
      \<and> dirs w' = dirs (world_with_train renamed_text)"
    using structural_failure_stops_the_run [of sample_ext sample_validator
        "world_with_train renamed_text" table_renamed table_a]
      train(2) test names
    unfolding paths by blast
  from train count names one two show ?thesis
    by (intro conjI)
qed





section \<open>Loading the schema\<close>

text \<open>
  Claim C7. The constructor loads the schema with \<^verbatim>\<open>read_yaml_file\<close>, which is
  modelled from the spec. A schema document with zero columns makes the constructor
  raise, so no validator exists for it; the schema of every validator the constructor
  returns is the document of the schema file, it has a number of columns other than
  zero, and when its \<^verbatim>\<open>columns\<close> entry is a mapping, that mapping is not empty.
\<close>

theorem empty_schema_is_rejected:
  "(files w path = Some (Document doc) \<and> zero_columns doc
      \<longrightarrow> DataValidation_init path artifact config w
            = (Inl (NetworkSecurityException (SchemaLoadError path) 21), w))
   \<and> (fst (DataValidation_init path artifact config w) = Inr self
        \<longrightarrow> files w path = Some (Document (schema_config self))
            \<and> \<not> zero_columns (schema_config self)
            \<and> (\<forall>cols. py_getitem (schema_config self) ''columns'' = Inr (PyDict cols)
                   \<longrightarrow> cols \<noteq> []))"
proof (rule conjI [OF impI impI])
  assume "files w path = Some (Document doc) \<and> zero_columns doc"
  then show "DataValidation_init path artifact config w
      = (Inl (NetworkSecurityException (SchemaLoadError path) 21), w)"
    by (simp add: DataValidation_init_def read_yaml_file_def except_Exception_def)
next
  assume "fst (DataValidation_init path artifact config w) = Inr self"
  then have loaded: "files w path = Some (Document (schema_config self))"
    and nonzero: "\<not> zero_columns (schema_config self)"
    by (auto simp add: DataValidation_init_def read_yaml_file_def except_Exception_def
        split: option.splits content.splits if_splits)
  from nonzero have "\<forall>cols. py_getitem (schema_config self) ''columns'' = Inr (PyDict cols)
      \<longrightarrow> cols \<noteq> []"
    by (auto simp add: zero_columns_def)
  with loaded nonzero show "files w path = Some (Document (schema_config self))
      \<and> \<not> zero_columns (schema_config self)
      \<and> (\<forall>cols. py_getitem (schema_config self) ''columns'' = Inr (PyDict cols)
             \<longrightarrow> cols \<noteq> [])"
    by simp
qed

theorem empty_schema_is_rejected_witness:
  "zero_columns empty_schema
   \<and> DataValidation_init ''schema.yaml'' sample_ingestion sample_config
       (sample_world\<lparr>files := (files sample_world)(''schema.yaml'' \<mapsto> Document empty_schema)\<rparr>)
       = (Inl (NetworkSecurityException (SchemaLoadError ''schema.yaml'') 21),
          sample_world\<lparr>files := (files sample_world)(''schema.yaml'' \<mapsto> Document empty_schema)\<rparr>)
   \<and> fst (DataValidation_init ''schema.yaml'' sample_ingestion sample_config sample_world)
       = Inr sample_validator
   \<and> \<not> zero_columns (schema_config sample_validator)"
proof -
  let ?w = "sample_world\<lparr>files := (files sample_world)(''schema.yaml''
              \<mapsto> Document empty_schema)\<rparr>"
  have z: "zero_columns empty_schema"
    by (simp add: zero_columns_def empty_schema_def)
  have f: "files ?w ''schema.yaml'' = Some (Document empty_schema)"
    by simp
  have ok: "fst (DataValidation_init ''schema.yaml'' sample_ingestion sample_config
      sample_world) = Inr sample_validator"
    by (simp add: DataValidation_init_def read_yaml_file_def except_Exception_def
        sample_world_def sample_validator_def zero_columns_def sample_schema_def)
  from empty_schema_is_rejected [where w = ?w and path = "''schema.yaml''"
      and doc = empty_schema and artifact = sample_ingestion and config = sample_config,
      THEN conjunct1] z f
  have rejected: "DataValidation_init ''schema.yaml'' sample_ingestion sample_config ?w
      = (Inl (NetworkSecurityException (SchemaLoadError ''schema.yaml'') 21), ?w)"
    by simp
  from empty_schema_is_rejected [where w = sample_world and path = "''schema.yaml''"
      and artifact = sample_ingestion and config = sample_config
      and self = sample_validator, THEN conjunct2] ok
  have "\<not> zero_columns (schema_config sample_validator)"
    by simp
  with z rejected ok show ?thesis
    by (intro conjI)
qed


section \<open>The validated files\<close>

text \<open>
  Claim C8, as it stands, fails: the validated train file is not a copy of the input
  file but the table parsed from it, written out again. An input file without a newline
  after its last row comes out with one.
\<close>

theorem validated_files_differ_from_inputs:
  "fst (initiate_data_validation sample_ext sample_validator sample_world)
     = Inr sample_artifact
   \<and> files sample_world ''in/train.csv'' = Some (Text train_text)
   \<and> files (snd (initiate_data_validation sample_ext sample_validator sample_world))
        ''out/validated/train.csv'' = Some (Text (train_text @ [newline]))
   \<and> train_text @ [newline] \<noteq> train_text"
proof -
  let ?run = "initiate_data_validation sample_ext sample_validator sample_world"
  have "fst ?run = Inr sample_artifact"
    by (simp add: sample_run)
  moreover have "files sample_world ''in/train.csv'' = Some (Text train_text)"
    by (simp add: sample_world_def)
  moreover have "files (snd ?run) ''out/validated/train.csv''
      = Some (Text (train_text @ [newline]))"
    by (simp add: sample_run test_text_eq)
  moreover have "train_text @ [newline] \<noteq> train_text"
    by simp
  ultimately show ?thesis
    by (intro conjI)
qed

text \<open>
  Claim C8, amended. After a run that returns, the validated test file holds the text
  \<^verbatim>\<open>to_csv\<close> writes (header row, no index column) for the table \<^verbatim>\<open>read_csv\<close>
  parsed from the test input, and so does the validated train file for the train input
  when the two output paths differ. Running the validation again in the resulting
  world, the two input files being as they were, returns the same record and leaves
  every file with the content it had.
\<close>

theorem validated_files_are_reserialised:
  assumes "initiate_data_validation ext self w = (Inr a, w')"
  shows "\<exists>train_held test_held train_df test_df.
           files w (trained_file_path (data_ingestion_artifact self)) = Some train_held
           \<and> pd_read_csv ext train_held = Inr train_df
           \<and> files w (test_file_path (data_ingestion_artifact self)) = Some test_held
           \<and> pd_read_csv ext test_held = Inr test_df
           \<and> files w' (valid_test_file_path (data_validation_config self))
               = Some (Text (pd_to_csv ext test_df))
           \<and> (valid_train_file_path (data_validation_config self)
                 \<noteq> valid_test_file_path (data_validation_config self)
               \<longrightarrow> files w' (valid_train_file_path (data_validation_config self))
                     = Some (Text (pd_to_csv ext train_df)))
           \<and> (files w' (trained_file_path (data_ingestion_artifact self))
                 = files w (trained_file_path (data_ingestion_artifact self))
               \<and> files w' (test_file_path (data_ingestion_artifact self))
                   = files w (test_file_path (data_ingestion_artifact self))
               \<longrightarrow> (\<exists>w''. initiate_data_validation ext self w' = (Inr a, w'')
                      \<and> files w'' = files w'))"
proof -
  let ?tp = "trained_file_path (data_ingestion_artifact self)"
  let ?sp = "test_file_path (data_ingestion_artifact self)"
  let ?rp = "drift_report_file_path (data_validation_config self)"
  let ?vt = "valid_train_file_path (data_validation_config self)"
  let ?vs = "valid_test_file_path (data_validation_config self)"
  from assms [unfolded initiate_data_validation_Inr]
  obtain train_held test_held train_df test_df cols k required report w1 w2 w3 w4 w5 where
    reads: "files w ?tp = Some train_held" "pd_read_csv ext train_held = Inr train_df"
      "files w ?sp = Some test_held" "pd_read_csv ext test_held = Inr test_df"
    and schema: "py_getitem (schema_config self) ''columns'' = Inr cols"
      "py_len cols = Inr k" "py_keys cols = Inr required"
      "df_shape1 train_df = k" "df_shape1 test_df = k"
      "set required \<subseteq> set (df_columns train_df)"
      "set required \<subseteq> set (df_columns test_df)"
    and loop: "drift_loop ext train_df test_df default_threshold (df_columns train_df) True []
        = Inr (validation_status a, report)"
    and m1: "makedirs (dirname ?rp)
              (w\<lparr>logged := logged w @
                   [Required_number_of_columns k, DataFrame_has_columns k,
                    Required_number_of_columns k, DataFrame_has_columns k]\<rparr>) = Inr w1"
    and wr1: "write_file ?rp (Document (PyDict report)) w1 = Inr w2"
    and m2: "makedirs (dirname ?vt) w2 = Inr w3"
    and wr2: "write_file ?vt (Text (pd_to_csv ext train_df)) w3 = Inr w4"
    and wr3: "write_file ?vs (Text (pd_to_csv ext test_df)) w4 = Inr w5"
    and a: "a = \<lparr>validation_status = validation_status a,
                artifact_valid_train_file_path = ?vt, artifact_valid_test_file_path = ?vs,
                invalid_train_file_path = None, invalid_test_file_path = None,
                artifact_drift_report_file_path = ?rp\<rparr>"
    and w': "w' = w5\<lparr>logged := logged w5 @ [Data_validation_completed a]\<rparr>"
    by (elim exE conjE)
  let ?log = "[Required_number_of_columns k, DataFrame_has_columns k,
               Required_number_of_columns k, DataFrame_has_columns k]"
  let ?D = "Document (PyDict report)"
  let ?T = "Text (pd_to_csv ext train_df)"
  let ?S = "Text (pd_to_csv ext test_df)"
  from makedirs_Inr [OF m1] have 1: "files w1 = files w"
    by simp
  from wr1 [unfolded write_file_Inr] have 2: "files w2 = (files w1)(?rp \<mapsto> ?D)"
    "dirs w2 = dirs w1" "\<not> isdir w1 ?rp" "dirname ?rp = [] \<or> isdir w1 (dirname ?rp)"
    by simp_all
  from makedirs_Inr [OF m2] have 3: "files w3 = files w2" "dirs w2 \<subseteq> dirs w3"
    "\<forall>p \<in> dirs w3 - dirs w2. files w2 p = None"
    by simp_all
  from wr2 [unfolded write_file_Inr] have 4: "files w4 = (files w3)(?vt \<mapsto> ?T)"
    "dirs w4 = dirs w3" "\<not> isdir w3 ?vt" "dirname ?vt = [] \<or> isdir w3 (dirname ?vt)"
    by simp_all
  from wr3 [unfolded write_file_Inr] have 5: "files w5 = (files w4)(?vs \<mapsto> ?S)"
    "dirs w5 = dirs w4" "\<not> isdir w4 ?vs" "dirname ?vs = [] \<or> isdir w4 (dirname ?vs)"
    by simp_all
  have files': "files w' = (files w)(?rp \<mapsto> ?D, ?vt \<mapsto> ?T, ?vs \<mapsto> ?S)"
    by (simp add: w' 1 2 3 4 5)
  have dirs': "dirs w' = dirs w3"
    by (simp add: w' 4 5)
  have written: "files w' ?vs = Some ?S" "?vt \<noteq> ?vs \<Longrightarrow> files w' ?vt = Some ?T"
    by (simp_all add: files')
  have again: "\<exists>w''. initiate_data_validation ext self w' = (Inr a, w'')
      \<and> files w'' = files w'"
    if same: "files w' ?tp = files w ?tp" "files w' ?sp = files w ?sp"
  proof -
    let ?v1 = "w'\<lparr>logged := logged w' @ ?log\<rparr>"
    let ?v2 = "?v1\<lparr>files := (files ?v1)(?rp \<mapsto> ?D)\<rparr>"
    let ?v4 = "?v2\<lparr>files := (files ?v2)(?vt \<mapsto> ?T)\<rparr>"
    let ?v5 = "?v4\<lparr>files := (files ?v4)(?vs \<mapsto> ?S)\<rparr>"
    let ?w'' = "?v5\<lparr>logged := logged ?v5 @ [Data_validation_completed a]\<rparr>"
    have report_no_dir: "?rp \<notin> dirs w3"
    proof
      assume in3: "?rp \<in> dirs w3"
      from 2(3) have "?rp \<notin> dirs w2"
        by (simp add: isdir_def 2(2))
      with in3 have "?rp \<in> dirs w3 - dirs w2"
        by simp
      with 3(3) have "files w2 ?rp = None"
        by (rule bspec)
      then show False
        by (simp add: 2(1))
    qed
    have not_root: "\<not> is_root ?rp" "\<not> is_root ?vt" "\<not> is_root ?vs"
      using 2(3) 4(3) 5(3) by (simp_all add: isdir_def)
    have m1': "makedirs (dirname ?rp) ?v1 = Inr ?v1"
    proof (rule makedirs_again [OF m1])
      from makedirs_Inr [OF m2] show "dirs w1 \<subseteq> dirs ?v1"
        by (simp add: dirs' 2(2))
      show "\<forall>p. files (w\<lparr>logged := logged w @ ?log\<rparr>) p \<noteq> None \<longrightarrow> files ?v1 p \<noteq> None"
        by (simp add: files')
    qed
    have dir_rp: "dirname ?rp = [] \<or> isdir ?v1 (dirname ?rp)"
      using 2(4) 3(2) by (auto simp add: isdir_def dirs' 2(2))
    have wr1': "write_file ?rp ?D ?v1 = Inr ?v2"
      unfolding write_file_Inr using dir_rp report_no_dir not_root(1)
      by (simp add: isdir_def dirs')
    have m2': "makedirs (dirname ?vt) ?v2 = Inr ?v2"
    proof (rule makedirs_again [OF m2])
      show "dirs w3 \<subseteq> dirs ?v2"
        by (simp add: dirs')
      show "\<forall>p. files w2 p \<noteq> None \<longrightarrow> files ?v2 p \<noteq> None"
        by (simp add: files' 2(1) 1)
    qed
    have wr2': "write_file ?vt ?T ?v2 = Inr ?v4"
      unfolding write_file_Inr using 4(3,4)
      by (simp add: isdir_def dirs')
    have wr3': "write_file ?vs ?S ?v4 = Inr ?v5"
      unfolding write_file_Inr using 5(3,4)
      by (simp add: isdir_def dirs' 4(2))
    have "initiate_data_validation ext self w' = (Inr a, ?w'')"
      unfolding initiate_data_validation_Inr
      apply (rule exI [where x = train_held])
      apply (rule exI [where x = test_held])
      apply (rule exI [where x = train_df])
      apply (rule exI [where x = test_df])
      apply (rule exI [where x = cols])
      apply (rule exI [where x = k])
      apply (rule exI [where x = required])
      apply (rule exI [where x = report])
      apply (rule exI [where x = ?v1])
      apply (rule exI [where x = ?v2])
      apply (rule exI [where x = ?v2])
      apply (rule exI [where x = ?v4])
      apply (rule exI [where x = ?v5])
      apply (intro conjI)
      apply (simp_all only: reads same schema loop m1' wr1' m2' wr2' wr3')
      apply (rule a)
      done
    moreover have "files ?w'' = files w'"
      by (rule ext) (simp add: files')
    ultimately show ?thesis
      by (intro exI [where x = ?w'']) simp
  qed
  show ?thesis
    apply (rule exI [where x = train_held])
    apply (rule exI [where x = test_held])
    apply (rule exI [where x = train_df])
    apply (rule exI [where x = test_df])
    using reads written again
    apply simp
    done
qed


theorem validated_files_are_reserialised_witness:
  "initiate_data_validation sample_ext sample_validator sample_world
     = (Inr sample_artifact,
        snd (initiate_data_validation sample_ext sample_validator sample_world))
   \<and> files (snd (initiate_data_validation sample_ext sample_validator sample_world))
        ''out/validated/test.csv'' = Some (Text (sample_to_csv table_a))
   \<and> files (snd (initiate_data_validation sample_ext sample_validator sample_world))
        ''out/validated/train.csv'' = Some (Text (sample_to_csv table_a))
   \<and> (\<exists>w''. initiate_data_validation sample_ext sample_validator
                (snd (initiate_data_validation sample_ext sample_validator sample_world))
              = (Inr sample_artifact, w'')
          \<and> files w''
              = files (snd (initiate_data_validation sample_ext sample_validator
                              sample_world)))"
proof -
  let ?run = "initiate_data_validation sample_ext sample_validator sample_world"
  have run: "?run = (Inr sample_artifact, snd ?run)"
    by (simp add: sample_run)
  have cfg: "trained_file_path (data_ingestion_artifact sample_validator) = ''in/train.csv''"
    "test_file_path (data_ingestion_artifact sample_validator) = ''in/test.csv''"
    "valid_train_file_path (data_validation_config sample_validator)
       = ''out/validated/train.csv''"
    "valid_test_file_path (data_validation_config sample_validator)
       = ''out/validated/test.csv''"
    by (simp_all add: sample_validator_def sample_ingestion_def sample_config_def)
  have inputs: "files sample_world ''in/train.csv'' = Some (Text train_text)"
    "files sample_world ''in/test.csv'' = Some (Text test_text)"
    by (simp_all add: sample_world_def)
  have same: "files (snd ?run) ''in/train.csv'' = files sample_world ''in/train.csv''"
    "files (snd ?run) ''in/test.csv'' = files sample_world ''in/test.csv''"
    by (simp_all add: sample_run)
  have ext: "pd_read_csv sample_ext = sample_read_csv" "pd_to_csv sample_ext = sample_to_csv"
    by (simp_all add: sample_ext_def)
  from validated_files_are_reserialised [OF run, unfolded cfg ext inputs]
  obtain train_df test_df where
    "sample_read_csv (Text train_text) = Inr train_df"
    "sample_read_csv (Text test_text) = Inr test_df"
    "files (snd ?run) ''out/validated/test.csv'' = Some (Text (sample_to_csv test_df))"
    "''out/validated/train.csv'' \<noteq> ''out/validated/test.csv''
       \<longrightarrow> files (snd ?run) ''out/validated/train.csv'' = Some (Text (sample_to_csv train_df))"
    "files (snd ?run) ''in/train.csv'' = Some (Text train_text)
       \<and> files (snd ?run) ''in/test.csv'' = Some (Text test_text)
       \<longrightarrow> (\<exists>w''. initiate_data_validation sample_ext sample_validator (snd ?run)
                    = (Inr sample_artifact, w'')
              \<and> files w'' = files (snd ?run))"
    by auto
  with same inputs have
    "files (snd ?run) ''out/validated/test.csv'' = Some (Text (sample_to_csv table_a))"
    "files (snd ?run) ''out/validated/train.csv'' = Some (Text (sample_to_csv table_a))"
    "\<exists>w''. initiate_data_validation sample_ext sample_validator (snd ?run)
            = (Inr sample_artifact, w'')
       \<and> files w'' = files (snd ?run)"
    by (simp_all add: sample_read_train sample_read_test)
  with run show ?thesis
    by (intro conjI)
qed

end
